theory Spec2Isabelle
  imports Main
begin

section \<open>Python values and exceptions\<close>

text \<open>
  The inbound interaction payload is the result of decoding a JSON document: a tree of
  \<open>None\<close>, booleans, integers, strings, lists and dictionaries with string keys.
  The library reads and writes it with Python's own operations on these values, each of
  which may raise; the operations below say when. Numbers with a fraction are left out:
  the platform sends ids as strings and types as integers.
\<close>

datatype json =
    JNull
  | JBool bool
  | JNum int
  | JStr string
  | JArr "json list"
  | JObj "(string \<times> json) list"

text \<open>
  The exceptions the library raises itself, and the ones Python raises on its behalf.
  \<open>CommandNotFound n\<close> stands for
  \<^verbatim>\<open>CommandNotFound(f'The root command "{n}" was not found.')\<close>; the messages of the
  exceptions raised by the interpreter (\<open>KeyError\<close>, \<open>IndexError\<close>, and the
  \<open>TypeError\<close>, \<open>ValueError\<close> and \<open>AttributeError\<close> not raised by a \<^verbatim>\<open>raise\<close>
  statement of the library) are descriptive only. \<open>AppException\<close> is any other exception
  derived from \<^verbatim>\<open>Exception\<close> that application code (a handler, a check, the HTTP client)
  raises; \<open>SystemExit\<close> derives from \<^verbatim>\<open>BaseException\<close> only.
\<close>

datatype error =
    KeyError json
  | IndexError
  | TypeError string
  | ValueError string
  | AttributeError string
  | RecursionError string
  | NotImplementedError string
  | BadArgument string
  | CheckFailure string
  | CommandNotFound json
  | HTTPException string
  | AppException string
  | SystemExit

text \<open>\<^verbatim>\<open>except Exception\<close> catches every exception but those derived from \<^verbatim>\<open>BaseException\<close> alone.\<close>

fun is_Exception :: "error \<Rightarrow> bool" where
  "is_Exception SystemExit = False"
| "is_Exception _ = True"

text \<open>\<^verbatim>\<open>except BadArgument\<close>.\<close>

fun is_BadArgument :: "error \<Rightarrow> bool" where
  "is_BadArgument (BadArgument _) = True"
| "is_BadArgument _ = False"

text \<open>Sequencing of computations that may raise.\<close>

definition bindE :: "error + 'a \<Rightarrow> ('a \<Rightarrow> error + 'b) \<Rightarrow> error + 'b" where
  "bindE r f = (case r of Inl e \<Rightarrow> Inl e | Inr v \<Rightarrow> f v)"

subsection \<open>Dictionaries\<close>

text \<open>
  A Python dictionary with string keys is an association list with one entry per key.
  Assigning to a key that is present replaces its value in place; assigning to a new key
  appends the entry.
\<close>

fun dict_set :: "(string \<times> 'a) list \<Rightarrow> string \<Rightarrow> 'a \<Rightarrow> (string \<times> 'a) list" where
  "dict_set [] k v = [(k, v)]"
| "dict_set ((k', v') # kvs) k v =
     (if k' = k then (k, v) # kvs else (k', v') # dict_set kvs k v)"

definition dict_del :: "(string \<times> 'a) list \<Rightarrow> string \<Rightarrow> (string \<times> 'a) list" where
  "dict_del kvs k = filter (\<lambda>kv. fst kv \<noteq> k) kvs"

subsection \<open>Truth value, length, subscription\<close>

text \<open>\<^verbatim>\<open>bool(v)\<close>, as used by \<^verbatim>\<open>if v:\<close> and \<^verbatim>\<open>not v\<close>.\<close>

fun py_truthy :: "json \<Rightarrow> bool" where
  "py_truthy JNull = False"
| "py_truthy (JBool b) = b"
| "py_truthy (JNum n) = (n \<noteq> 0)"
| "py_truthy (JStr s) = (s \<noteq> [])"
| "py_truthy (JArr xs) = (xs \<noteq> [])"
| "py_truthy (JObj kvs) = (kvs \<noteq> [])"

text \<open>\<^verbatim>\<open>len(v)\<close>.\<close>

fun py_len :: "json \<Rightarrow> error + nat" where
  "py_len (JStr s) = Inr (length s)"
| "py_len (JArr xs) = Inr (length xs)"
| "py_len (JObj kvs) = Inr (length kvs)"
| "py_len _ = Inl (TypeError ''object has no len()'')"

text \<open>\<^verbatim>\<open>d[k]\<close> for a string literal \<open>k\<close>.\<close>

fun py_getitem :: "json \<Rightarrow> string \<Rightarrow> error + json" where
  "py_getitem (JObj kvs) k =
     (case map_of kvs k of None \<Rightarrow> Inl (KeyError (JStr k)) | Some v \<Rightarrow> Inr v)"
| "py_getitem (JArr xs) k = Inl (TypeError ''list indices must be integers or slices, not str'')"
| "py_getitem (JStr s) k = Inl (TypeError ''string indices must be integers'')"
| "py_getitem _ k = Inl (TypeError ''object is not subscriptable'')"

text \<open>
  \<^verbatim>\<open>d[k]\<close> and \<^verbatim>\<open>d.get(k)\<close> for a key \<open>k\<close> that is itself a value of the payload. A list or
  a dictionary is not hashable; a key that is not a string is never found, the keys of a
  decoded JSON object being strings.
\<close>

fun py_hashable :: "json \<Rightarrow> bool" where
  "py_hashable (JArr xs) = False"
| "py_hashable (JObj kvs) = False"
| "py_hashable _ = True"

fun dict_lookup :: "(string \<times> 'a) list \<Rightarrow> json \<Rightarrow> error + 'a option" where
  "dict_lookup kvs (JStr k) = Inr (map_of kvs k)"
| "dict_lookup kvs k =
     (if py_hashable k then Inr None else Inl (TypeError ''unhashable type''))"

fun py_getitem_key :: "json \<Rightarrow> json \<Rightarrow> error + json" where
  "py_getitem_key (JObj kvs) k =
     bindE (dict_lookup kvs k)
       (\<lambda>r. case r of None \<Rightarrow> Inl (KeyError k) | Some v \<Rightarrow> Inr v)"
| "py_getitem_key _ k = Inl (TypeError ''object is not subscriptable with this key'')"

text \<open>\<^verbatim>\<open>d.get(k, dflt)\<close> for a string literal \<open>k\<close>; only a dictionary has the method.\<close>

fun py_get_default :: "json \<Rightarrow> string \<Rightarrow> json \<Rightarrow> error + json" where
  "py_get_default (JObj kvs) k dflt =
     (case map_of kvs k of None \<Rightarrow> Inr dflt | Some v \<Rightarrow> Inr v)"
| "py_get_default _ k dflt = Inl (AttributeError ''object has no attribute 'get' '')"

definition py_get :: "json \<Rightarrow> string \<Rightarrow> error + json" where
  "py_get d k = py_get_default d k JNull"

fun py_get_key :: "json \<Rightarrow> json \<Rightarrow> error + json" where
  "py_get_key (JObj kvs) k =
     bindE (dict_lookup kvs k)
       (\<lambda>r. case r of None \<Rightarrow> Inr JNull | Some v \<Rightarrow> Inr v)"
| "py_get_key _ k = Inl (AttributeError ''object has no attribute 'get' '')"

text \<open>
  \<^verbatim>\<open>v[i]\<close> for a non-negative integer \<open>i\<close>: an element of a list, a one-character string
  of a string, a failed lookup in a dictionary (whose keys are strings).
\<close>

fun py_index :: "json \<Rightarrow> nat \<Rightarrow> error + json" where
  "py_index (JArr xs) i = (if i < length xs then Inr (xs ! i) else Inl IndexError)"
| "py_index (JStr s) i = (if i < length s then Inr (JStr [s ! i]) else Inl IndexError)"
| "py_index (JObj kvs) i = Inl (KeyError (JNum (int i)))"
| "py_index _ i = Inl (TypeError ''object is not subscriptable'')"

text \<open>\<^verbatim>\<open>d[k] = v\<close> for a string literal \<open>k\<close>, where \<open>d\<close> is a dictionary.\<close>

fun py_setitem :: "json \<Rightarrow> string \<Rightarrow> json \<Rightarrow> error + json" where
  "py_setitem (JObj kvs) k v = Inr (JObj (dict_set kvs k v))"
| "py_setitem _ k v = Inl (TypeError ''object does not support item assignment'')"

text \<open>
  \<^verbatim>\<open>v == i\<close> and \<^verbatim>\<open>v in {i, j}\<close> for integer literals: \<open>True\<close> and \<open>False\<close> are
  the integers 1 and 0, and membership in a set hashes the value first.
\<close>

fun py_eq_int :: "json \<Rightarrow> int \<Rightarrow> bool" where
  "py_eq_int (JNum n) i = (n = i)"
| "py_eq_int (JBool b) i = ((if b then 1 else 0) = i)"
| "py_eq_int _ i = False"

definition py_in_ints :: "json \<Rightarrow> int list \<Rightarrow> error + bool" where
  "py_in_ints v is =
     (if py_hashable v then Inr (\<exists>i \<in> set is. py_eq_int v i)
      else Inl (TypeError ''unhashable type''))"

subsection \<open>Conversion to an integer\<close>

text \<open>
  \<^verbatim>\<open>int(v)\<close>. A string is stripped of surrounding white space and read as an optional
  sign and decimal digits, single underscores allowed between digits. Only ASCII digits
  and ASCII white space are recognised here.
\<close>

definition is_space :: "char \<Rightarrow> bool" where
  "is_space c = (of_char c \<in> set [9, 10, 11, 12, 13, 28, 29, 30, 31, 32 :: nat])"

definition digit_val :: "char \<Rightarrow> nat option" where
  "digit_val c =
     (let n = (of_char c :: nat) in if 48 \<le> n \<and> n \<le> 57 then Some (n - 48) else None)"

fun parse_digits :: "nat \<Rightarrow> string \<Rightarrow> nat option" where
  "parse_digits acc [] = Some acc"
| "parse_digits acc [c] =
     (case digit_val c of None \<Rightarrow> None | Some v \<Rightarrow> Some (acc * 10 + v))"
| "parse_digits acc (c # d # ds) =
     (if c = CHR ''_'' then
        (case digit_val d of None \<Rightarrow> None | Some v \<Rightarrow> parse_digits (acc * 10 + v) ds)
      else
        (case digit_val c of None \<Rightarrow> None | Some v \<Rightarrow> parse_digits (acc * 10 + v) (d # ds)))"

definition parse_unsigned :: "string \<Rightarrow> nat option" where
  "parse_unsigned s =
     (case s of [] \<Rightarrow> None
      | c # cs \<Rightarrow> (case digit_val c of None \<Rightarrow> None | Some v \<Rightarrow> parse_digits v cs))"

definition strip :: "string \<Rightarrow> string" where
  "strip s = rev (dropWhile is_space (rev (dropWhile is_space s)))"

definition parse_int :: "string \<Rightarrow> int option" where
  "parse_int s =
     (case strip s of [] \<Rightarrow> None
      | c # cs \<Rightarrow>
          if c = CHR ''-'' then map_option (\<lambda>n. - int n) (parse_unsigned cs)
          else if c = CHR ''+'' then map_option int (parse_unsigned cs)
          else map_option int (parse_unsigned (c # cs)))"

fun py_int :: "json \<Rightarrow> error + int" where
  "py_int (JNum n) = Inr n"
| "py_int (JBool b) = Inr (if b then 1 else 0)"
| "py_int (JStr s) =
     (case parse_int s of None \<Rightarrow> Inl (ValueError ''invalid literal for int() with base 10'')
      | Some n \<Rightarrow> Inr n)"
| "py_int _ = Inl (TypeError ''int() argument must be a string, a bytes-like object or a number'')"

text \<open>
  \<^verbatim>\<open>a == b\<close> on decoded values: booleans compare as the integers 1 and 0, lists
  element by element, dictionaries as sets of entries.
\<close>

function py_eq :: "json \<Rightarrow> json \<Rightarrow> bool" where
  "py_eq JNull b = (b = JNull)"
| "py_eq (JBool a) b =
     (case b of JBool c \<Rightarrow> a = c | JNum n \<Rightarrow> (if a then 1 else 0) = n | _ \<Rightarrow> False)"
| "py_eq (JNum a) b =
     (case b of JBool c \<Rightarrow> a = (if c then 1 else 0) | JNum n \<Rightarrow> a = n | _ \<Rightarrow> False)"
| "py_eq (JStr a) b = (b = JStr a)"
| "py_eq (JArr xs) b =
     (case b of JArr ys \<Rightarrow> list_all2 py_eq xs ys | _ \<Rightarrow> False)"
| "py_eq (JObj kvs) b =
     (case b of
        JObj kvs' \<Rightarrow>
          length kvs = length kvs' \<and>
          list_all (\<lambda>kv. case map_of kvs' (fst kv) of None \<Rightarrow> False
                          | Some v' \<Rightarrow> py_eq (snd kv) v') kvs
      | _ \<Rightarrow> False)"
  by pat_completeness auto
termination
proof (relation "measure (\<lambda>(a, b). size a)", goal_cases)
  case 1
  show ?case by simp
next
  case (2 xs b ys x y)
  then have "size x \<le> size_list size xs"
    by (intro size_list_estimation'[where x = x]) simp_all
  then show ?case by simp
next
  case (3 kvs b kvs' kv v')
  then have "size_prod (\<lambda>_. 0) size kv \<le> size_list (size_prod (\<lambda>_. 0) size) kvs"
    by (intro size_list_estimation'[where x = kv]) simp_all
  then show ?case by (cases kv) simp
qed

section \<open>The data model\<close>

text \<open>
  The values a converter hands to a handler. The objects of the host framework are
  represented by the arguments of their constructors: \<open>Member g d\<close> is
  \<^verbatim>\<open>discord.Member(state=bot._get_state(), guild=bot.get_guild(g), data=d)\<close>, and
  likewise for channels and roles; \<open>Raw v\<close> is a value of the payload passed on as it is.
  The framework's constructors and look-ups are taken not to raise.
\<close>

datatype pyval =
    Raw json
  | User json
  | Member int json
  | TextChannel int json
  | CategoryChannel int json
  | Role int json
  | Object int

text \<open>
  \<^verbatim>\<open>CommandsContext\<close>: the flag \<^verbatim>\<open>_first_reply\<close>, the payload \<^verbatim>\<open>_ctx_data\<close>, the flag
  \<^verbatim>\<open>ephemeral\<close>, and the pseudo message it is built around: the channel id handed to
  \<^verbatim>\<open>bot.get_channel\<close> and the message payload.
\<close>

record commands_context =
  first_reply :: bool
  ctx_data :: json
  ephemeral :: bool
  message_channel :: int
  message_data :: json

text \<open>
  A check is a function of the context, coroutine function or not
  (\<^verbatim>\<open>asyncio.iscoroutinefunction\<close>); running its body raises or returns a value, of which
  only the truth value is used.
\<close>

datatype check = Check (check_name: string) (is_coroutine: bool)
  (predicate: "commands_context \<Rightarrow> error + bool")

text \<open>
  An outbound request: the initial callback to
  \<^verbatim>\<open>POST /interactions/{id}/{token}/callback\<close> with its JSON body, or a message sent by the
  host framework's own \<^verbatim>\<open>Context.reply\<close>.
\<close>

record reply_kwargs =
  kw_tts :: json
  kw_embeds :: "json list"
  kw_embed :: "json option"
  kw_allowed_mentions :: json

datatype outbound =
    Callback json json json
  | FrameworkReply json reply_kwargs

text \<open>
  The bot: its global checks (\<^verbatim>\<open>_checks\<close>, \<^verbatim>\<open>_check_once\<close>) and the outcome of handing
  a request to its HTTP client or to the framework's reply (\<open>None\<close> when it returns).
\<close>

record bot =
  bot_checks :: "check list"
  bot_check_once :: "check list"
  send :: "outbound \<Rightarrow> error option"

text \<open>The platform type of an argument; the union code can also return a set here.\<close>

datatype type_id = IntId nat | SetId "nat list"

text \<open>
  The functions of the table \<^verbatim>\<open>_arg_types\<close>, by name; \<open>arg_func_call\<close> below gives
  each its body.
\<close>

datatype arg_func =
    F_nothing_converter
  | F_user_converter
  | F_member_converter
  | F_text_channel_converter
  | F_category_channel_converter
  | F_role_converter
  | F_mentionable_converter

text \<open>
  What \<^verbatim>\<open>_get_converter_function\<close> returns as the converter function:
  \<^verbatim>\<open>_wrap_arg_handler_async(f)\<close> for a function of the table, the closures
  \<^verbatim>\<open>single_type_processor\<close>, \<^verbatim>\<open>transform_int\<close> and \<^verbatim>\<open>compat_layer\<close>, and two objects
  that are not callable: \<^verbatim>\<open>_is_typing_optional\<close> is declared \<^verbatim>\<open>async\<close>, so calling it
  yields a coroutine object, and one union branch returns a tuple.
\<close>

datatype converter =
    ArgHandler arg_func
  | CoroutineObject converter
  | SingleTypeProcessor "converter list" converter
  | TransformInt converter
  | TupleObject converter type_id
  | CompatLayer "commands_context \<Rightarrow> json \<Rightarrow> error + pyval"

text \<open>
  The annotations of handler parameters, as far as the library tells them apart: the keys
  of \<^verbatim>\<open>_arg_types\<close>, the class of \<open>None\<close>, the two context classes, the special forms
  \<^verbatim>\<open>typing.Union\<close> and \<^verbatim>\<open>typing.Optional\<close>, \<^verbatim>\<open>commands.Greedy\<close>, an annotation with an
  \<^verbatim>\<open>__origin__\<close> and \<^verbatim>\<open>__args__\<close> (so \<^verbatim>\<open>Union[int, str]\<close> is
  \<open>T_Generic T_Union [T_int, T_str]\<close> and \<^verbatim>\<open>Optional[int]\<close>, which Python reads as
  \<^verbatim>\<open>Union[int, None]\<close>, is \<open>T_Generic T_Union [T_int, T_NoneType]\<close>), a class with a
  \<^verbatim>\<open>convert\<close> attribute, and anything else.
\<close>

datatype py_type =
    T_str | T_int | T_bool
  | T_User | T_Member | T_TextChannel | T_CategoryChannel | T_Role | T_Object
  | T_NoneType
  | T_Context | T_CommandsContext
  | T_Union | T_Optional | T_Greedy
  | T_Generic py_type "py_type list"
  | T_Converter "commands_context \<Rightarrow> json \<Rightarrow> error + pyval"
  | T_Other

text \<open>
  A parameter of a handler's signature: its name, its annotation and its default, each
  \<open>None\<close> when \<^verbatim>\<open>inspect\<close> reports it empty.
\<close>

record param =
  param_name :: string
  annotation :: "py_type option"
  param_default :: "pyval option"

text \<open>
  What \<^verbatim>\<open>_create_command\<close> is given: a coroutine function or a container object. The
  fields are the attributes the library reads: \<^verbatim>\<open>_slash\<close>, whether
  \<^verbatim>\<open>asyncio.iscoroutinefunction\<close> holds, \<^verbatim>\<open>__doc__\<close>, \<^verbatim>\<open>_private\<close>, the parameters of the
  signature, \<^verbatim>\<open>__commands_checks__\<close>, what awaiting a call does (\<open>None\<close> when it returns,
  the exception when it raises), and the objects \<^verbatim>\<open>getattr(item, key)\<close> for the keys of
  \<^verbatim>\<open>item.__dir__()\<close>, in that order.
\<close>

datatype item = Item
  (slash_attr: "string option")
  (is_async: bool)
  (doc: "string option")
  (private_attr: bool)
  (parameters: "param list")
  (commands_checks: "check list option")
  (body: "commands_context \<Rightarrow> pyval list \<Rightarrow> error option")
  (attrs: "item list")

section \<open>The interaction context and the reply channel\<close>

text \<open>\<^verbatim>\<open>CommandsMessage._create_message_payload\<close>; the entries are evaluated in this order.\<close>

definition create_message_payload :: "json \<Rightarrow> error + json" where
  "create_message_payload raw =
     bindE (py_get raw ''member'') (\<lambda>member.
     bindE (py_getitem raw ''id'') (\<lambda>i.
     bindE (py_getitem raw ''channel_id'') (\<lambda>c.
     bindE (py_getitem raw ''guild_id'') (\<lambda>g.
     bindE (if py_truthy member then py_getitem member ''user'' else py_get raw ''user'')
       (\<lambda>author.
     Inr (JObj [(''id'', i), (''channel_id'', c), (''guild_id'', g), (''member'', member),
       (''author'', author), (''content'', JStr []), (''tts'', JBool False),
       (''mention_everyone'', JBool False), (''mentions'', JArr []),
       (''mention_roles'', JArr []), (''mention_channels'', JArr []),
       (''attachments'', JArr []), (''embeds'', JArr []), (''reactions'', JArr []),
       (''pinned'', JBool False), (''type'', JNum 0), (''edited_timestamp'', JNull)]))))))"

text \<open>
  \<^verbatim>\<open>CommandsMessage._create_text_channel\<close>: the result is the argument of
  \<^verbatim>\<open>bot.get_channel\<close>.
\<close>

definition create_text_channel :: "json \<Rightarrow> bot \<Rightarrow> error + int" where
  "create_text_channel raw b = bindE (py_getitem raw ''channel_id'') py_int"

text \<open>
  \<^verbatim>\<open>CommandsMessage.__init__\<close> evaluates the channel, then the payload, and hands both to
  the framework's message class.
\<close>

definition CommandsMessage_init :: "json \<Rightarrow> bot \<Rightarrow> error + int \<times> json" where
  "CommandsMessage_init raw b =
     bindE (create_text_channel raw b) (\<lambda>ch.
     bindE (create_message_payload raw) (\<lambda>d. Inr (ch, d)))"

definition CommandsContext_init :: "json \<Rightarrow> bot \<Rightarrow> error + commands_context" where
  "CommandsContext_init data b =
     bindE (CommandsMessage_init data b) (\<lambda>m.
       Inr \<lparr>first_reply = True, ctx_data = data, ephemeral = False,
            message_channel = fst m, message_data = snd m\<rparr>)"

definition reinvoke :: "commands_context \<Rightarrow> error + unit" where
  "reinvoke self = Inl (NotImplementedError ''This is not implemented in slash commands.'')"

text \<open>The \<^verbatim>\<open>data\<close> dictionary of the callback body, entry by entry as \<^verbatim>\<open>reply\<close> fills it.\<close>

definition callback_data :: "commands_context \<Rightarrow> json \<Rightarrow> reply_kwargs \<Rightarrow> (string \<times> json) list" where
  "callback_data self content kwargs =
     (let d0 = [(''tts'', JBool (py_truthy (kw_tts kwargs)))];
          d1 = (if ephemeral self then dict_set d0 ''flags'' (JNum 64) else d0);
          d2 = (if py_truthy content then dict_set d1 ''content'' content else d1);
          d3 = (if kw_embeds kwargs \<noteq> [] then dict_set d2 ''embeds'' (JArr (kw_embeds kwargs))
                else d2);
          d4 = (case kw_embed kwargs of None \<Rightarrow> d3
                | Some e \<Rightarrow> dict_set d3 ''embeds'' (JArr [e]));
          d5 = (if py_truthy (kw_allowed_mentions kwargs)
                then dict_set d4 ''allowed_mentions'' (kw_allowed_mentions kwargs) else d4)
      in d5)"

text \<open>
  \<^verbatim>\<open>CommandsContext.reply\<close>. The result is the exception raised, if any, the requests
  handed to the bot, and the context afterwards. \<open>Callback i t body\<close> is the request to
  the route built from the interaction's id \<open>i\<close> and token \<open>t\<close>. The flag is cleared by
  the statement after the awaited request, so only when the request returns.
\<close>

definition reply ::
  "bot \<Rightarrow> commands_context \<Rightarrow> json \<Rightarrow> reply_kwargs \<Rightarrow>
     error option \<times> outbound list \<times> commands_context" where
  "reply b self content kwargs =
     (if \<not> first_reply self then
        (send b (FrameworkReply content kwargs), [FrameworkReply content kwargs], self)
      else
        (case py_getitem (ctx_data self) ''id'' of
           Inl e \<Rightarrow> (Some e, [], self)
         | Inr i \<Rightarrow>
             (case py_getitem (ctx_data self) ''token'' of
                Inl e \<Rightarrow> (Some e, [], self)
              | Inr t \<Rightarrow>
                  (let req = Callback i t
                         (JObj [(''type'', JNum 4),
                                (''data'', JObj (callback_data self content kwargs))])
                   in case send b req of
                        Some e \<Rightarrow> (Some e, [req], self)
                      | None \<Rightarrow> (None, [req], self\<lparr>first_reply := False\<rparr>)))))"

section \<open>The argument converters\<close>

text \<open>
  A converter takes the bot, the payload and the raw value. \<^verbatim>\<open>_member_converter\<close> writes
  to the payload, so every converter returns the payload along with its result or
  exception.
\<close>

type_synonym converter_fn = "bot \<Rightarrow> json \<Rightarrow> json \<Rightarrow> (error + pyval) \<times> json"

definition nothing_converter :: converter_fn where
  "nothing_converter b ctx arg = (Inr (Raw arg), ctx)"

text \<open>\<^verbatim>\<open>ctx["data"]["resolved"]\<close> and \<^verbatim>\<open>int(ctx["guild_id"])\<close>.\<close>

definition resolved_of :: "json \<Rightarrow> error + json" where
  "resolved_of ctx = bindE (py_getitem ctx ''data'') (\<lambda>d. py_getitem d ''resolved'')"

definition guild_of :: "json \<Rightarrow> error + int" where
  "guild_of ctx = bindE (py_getitem ctx ''guild_id'') py_int"

definition user_converter :: converter_fn where
  "user_converter b ctx arg =
     (bindE (resolved_of ctx) (\<lambda>resolved.
      bindE (py_get_default resolved ''users'' (JObj [])) (\<lambda>users.
      bindE (py_get_key users arg) (\<lambda>user.
      if \<not> py_truthy user
      then Inl (BadArgument ''User specified is not someone the bot can see.'')
      else Inr (User user)))), ctx)"

text \<open>
  Replacing the value at a path of keys, where the path exists: the effect on the payload
  of an assignment to a dictionary reached through these keys.
\<close>

fun set_path :: "json \<Rightarrow> string list \<Rightarrow> json \<Rightarrow> json" where
  "set_path d [] v = v"
| "set_path (JObj kvs) (k # ks) v =
     (case map_of kvs k of None \<Rightarrow> JObj kvs
      | Some sub \<Rightarrow> JObj (dict_set kvs k (set_path sub ks v)))"
| "set_path d (k # ks) v = d"

text \<open>
  \<^verbatim>\<open>_member_converter\<close>. The three assignments to \<^verbatim>\<open>member\<close> change the dictionary
  found under \<^verbatim>\<open>ctx["data"]["resolved"]["members"][arg]\<close>, also when the look-up of the
  guild raises afterwards.
\<close>

definition member_converter :: converter_fn where
  "member_converter b ctx arg =
     (case bindE (resolved_of ctx) (\<lambda>resolved.
           bindE (py_get_default resolved ''members'' (JObj [])) (\<lambda>members.
           bindE (py_get_key members arg) (\<lambda>member. Inr (resolved, member)))) of
        Inl e \<Rightarrow> (Inl e, ctx)
      | Inr (resolved, member) \<Rightarrow>
          if \<not> py_truthy member then (Inl (BadArgument ''User specified is not a member.''), ctx)
          else
            (case bindE (py_getitem resolved ''users'') (\<lambda>users. py_getitem_key users arg) of
               Inl e \<Rightarrow> (Inl e, ctx)
             | Inr user \<Rightarrow>
                 (case bindE (py_setitem member ''user'' user) (\<lambda>m1.
                       bindE (py_setitem m1 ''deaf'' (JBool False)) (\<lambda>m2.
                       py_setitem m2 ''mute'' (JBool False))) of
                    Inl e \<Rightarrow> (Inl e, ctx)
                  | Inr m3 \<Rightarrow>
                      (let ctx' = (case arg of
                                     JStr k \<Rightarrow> set_path ctx [''data'', ''resolved'', ''members'', k] m3
                                   | _ \<Rightarrow> ctx)
                       in (bindE (guild_of ctx') (\<lambda>gid. Inr (Member gid m3)), ctx')))))"

text \<open>The part the two channel converters share: the look-up and the guild test.\<close>

definition guild_channel :: "json \<Rightarrow> json \<Rightarrow> error + json" where
  "guild_channel ctx arg =
     bindE (resolved_of ctx) (\<lambda>resolved.
     bindE (py_get_default resolved ''channels'' (JObj [])) (\<lambda>channels.
     bindE (py_get_key channels arg) (\<lambda>channel_obj.
     bindE (if \<not> py_truthy channel_obj then Inr True
            else bindE (py_get channel_obj ''guild_id'') (\<lambda>g.
                 bindE (py_getitem ctx ''guild_id'') (\<lambda>g'. Inr (\<not> py_eq g g')))) (\<lambda>foreign.
     if foreign then Inl (BadArgument ''Channel not in this guild.'') else Inr channel_obj))))"

definition text_channel_converter :: converter_fn where
  "text_channel_converter b ctx arg =
     (bindE (guild_channel ctx arg) (\<lambda>channel_obj.
      bindE (py_getitem channel_obj ''type'') (\<lambda>t.
      if \<not> py_eq_int t 0 then Inl (BadArgument ''This is not a text channel.'')
      else bindE (guild_of ctx) (\<lambda>gid. Inr (TextChannel gid channel_obj)))), ctx)"

definition category_channel_converter :: converter_fn where
  "category_channel_converter b ctx arg =
     (bindE (guild_channel ctx arg) (\<lambda>channel_obj.
      bindE (py_getitem channel_obj ''type'') (\<lambda>t.
      if \<not> py_eq_int t 4 then Inl (BadArgument ''This is not a category channel.'')
      else bindE (guild_of ctx) (\<lambda>gid. Inr (CategoryChannel gid channel_obj)))), ctx)"

definition role_converter :: converter_fn where
  "role_converter b ctx arg =
     (bindE (resolved_of ctx) (\<lambda>resolved.
      bindE (guild_of ctx) (\<lambda>gid.
      bindE (py_getitem resolved ''roles'') (\<lambda>roles.
      bindE (py_getitem_key roles arg) (\<lambda>r. Inr (Role gid r))))), ctx)"

definition mentionable_converter :: converter_fn where
  "mentionable_converter b ctx arg = (bindE (py_int arg) (\<lambda>n. Inr (Object n)), ctx)"

text \<open>The table \<^verbatim>\<open>_arg_types\<close>: platform type and converter of each known annotation.\<close>

fun arg_types :: "py_type \<Rightarrow> (nat \<times> arg_func) option" where
  "arg_types T_str = Some (3, F_nothing_converter)"
| "arg_types T_int = Some (4, F_nothing_converter)"
| "arg_types T_bool = Some (5, F_nothing_converter)"
| "arg_types T_User = Some (6, F_user_converter)"
| "arg_types T_Member = Some (6, F_member_converter)"
| "arg_types T_TextChannel = Some (7, F_text_channel_converter)"
| "arg_types T_CategoryChannel = Some (7, F_category_channel_converter)"
| "arg_types T_Role = Some (8, F_role_converter)"
| "arg_types T_Object = Some (9, F_mentionable_converter)"
| "arg_types _ = None"

fun arg_func_call :: "arg_func \<Rightarrow> converter_fn" where
  "arg_func_call F_nothing_converter = nothing_converter"
| "arg_func_call F_user_converter = user_converter"
| "arg_func_call F_member_converter = member_converter"
| "arg_func_call F_text_channel_converter = text_channel_converter"
| "arg_func_call F_category_channel_converter = category_channel_converter"
| "arg_func_call F_role_converter = role_converter"
| "arg_func_call F_mentionable_converter = mentionable_converter"

section \<open>Resolving an annotation to a converter\<close>

text \<open>
  \<^verbatim>\<open>isinstance(arg, type(None))\<close> holds of the value \<open>None\<close> alone. The members of
  \<^verbatim>\<open>__args__\<close> are types, the class of \<open>None\<close> among them, and a class is not an
  instance of that class.
\<close>

definition isinstance_NoneType :: "py_type \<Rightarrow> bool" where
  "isinstance_NoneType arg = False"

text \<open>
  \<^verbatim>\<open>getattr(converter_type, "convert", None)\<close>; an annotation with an origin passes the
  look-up on to its origin.
\<close>

fun convert_attr :: "py_type \<Rightarrow> (commands_context \<Rightarrow> json \<Rightarrow> error + pyval) option" where
  "convert_attr (T_Converter f) = Some f"
| "convert_attr (T_Generic x args) = convert_attr x"
| "convert_attr _ = None"

definition compat_layer :: "py_type \<Rightarrow> error + converter \<times> type_id" where
  "compat_layer converter_type =
     (case convert_attr converter_type of
        None \<Rightarrow> Inl (TypeError ''The argument type is not discord.ext.commands compatible.'')
      | Some x \<Rightarrow> Inr (CompatLayer x, IntId 3))"

text \<open>The variables of the union branch: \<^verbatim>\<open>required\<close>, \<^verbatim>\<open>discord_obj_fallback\<close>,
  the set \<^verbatim>\<open>arg_type\<close> and the list \<^verbatim>\<open>converters\<close>.\<close>

record union_vars =
  required :: bool
  discord_obj_fallback :: bool
  arg_type :: "nat list"
  converters :: "(converter \<times> type_id) list"

text \<open>\<^verbatim>\<open>arg_type.add(param_type_id)\<close>: a set cannot be a member of a set.\<close>

definition set_add :: "nat list \<Rightarrow> type_id \<Rightarrow> error + nat list" where
  "set_add xs t =
     (case t of IntId n \<Rightarrow> Inr (if n \<in> set xs then xs else xs @ [n])
      | SetId ns \<Rightarrow> Inl (TypeError ''unhashable type: set''))"

text \<open>
  The loop over \<^verbatim>\<open>converter_type.__args__\<close>. Its first argument is the outcome of the call
  \<^verbatim>\<open>_get_converter_function(x)\<close> in the loop body, where \<open>x\<close> is the origin of the
  annotation (not the member \<open>arg\<close> at hand); the call is only made for a member that is
  not skipped.
\<close>

fun union_loop ::
  "error + converter \<times> type_id \<Rightarrow> py_type list \<Rightarrow> union_vars \<Rightarrow> error + union_vars" where
  "union_loop r [] vs = Inr vs"
| "union_loop r (arg # args) vs =
     (if isinstance_NoneType arg then union_loop r args (vs\<lparr>required := False\<rparr>)
      else if arg = T_Object then union_loop r args (vs\<lparr>discord_obj_fallback := True\<rparr>)
      else bindE r (\<lambda>p.
           bindE (set_add (arg_type vs) (snd p)) (\<lambda>s.
           union_loop r args (vs\<lparr>converters := converters vs @ [p], arg_type := s\<rparr>))))"

text \<open>
  \<^verbatim>\<open>parse_single_type\<close>: the processor closes over \<^verbatim>\<open>converters\<close> (after the \<^verbatim>\<open>pop\<close>)
  and \<^verbatim>\<open>last\<close>, and is returned together with the set \<^verbatim>\<open>arg_type\<close> as it is then.
\<close>

definition parse_single_type ::
  "union_vars \<Rightarrow> nat \<Rightarrow> error + converter \<times> type_id" where
  "parse_single_type vs arg_type_popped =
     (if discord_obj_fallback vs then
        (if arg_type_popped \<in> {3, 4, 5} then Inl (TypeError ''Argument type not ID'able.'')
         else Inr (SingleTypeProcessor (map fst (converters vs)) (ArgHandler F_mentionable_converter),
                   SetId (arg_type vs)))
      else Inr (SingleTypeProcessor (map fst (butlast (converters vs))) (fst (last (converters vs))),
                SetId (arg_type vs)))"

text \<open>
  The rewriting of the integer converters: every closure \<^verbatim>\<open>transform_int\<close> reads the
  variable \<^verbatim>\<open>origin\<close> when it runs, which then holds the last integer converter.
\<close>

definition transform_ints :: "(converter \<times> type_id) list \<Rightarrow> (converter \<times> type_id) list" where
  "transform_ints cs =
     (let origin = fst (last (filter (\<lambda>c. snd c = IntId 4) cs))
      in map (\<lambda>c. if snd c = IntId 4 then (TransformInt origin, snd c) else c) cs)"

text \<open>The code after the loop.\<close>

definition union_finish :: "union_vars \<Rightarrow> error + converter \<times> type_id" where
  "union_finish vs =
     (if length (converters vs) = 0 then Inl (TypeError ''No converters in union.'')
      else if length (converters vs) = 1 then
        (if \<not> required vs
         then Inr (CoroutineObject (fst (hd (converters vs))), snd (hd (converters vs)))
         else Inr (hd (converters vs)))
      else if length (arg_type vs) = 1 then
        parse_single_type (vs\<lparr>arg_type := []\<rparr>) (hd (arg_type vs))
      else if set (arg_type vs) = {3, 4} then
        bindE (parse_single_type (vs\<lparr>converters := transform_ints (converters vs)\<rparr>) 3)
          (\<lambda>p. Inr (TupleObject (fst p) (snd p), IntId 3))
      else Inl (TypeError ''Unsupported fallback''))"

text \<open>
  \<^verbatim>\<open>_get_converter_function\<close>: the table first, then the annotations with an origin,
  then the compatibility layer. Only an annotation with an origin reaches the middle part.
\<close>

fun get_converter_function :: "py_type \<Rightarrow> error + converter \<times> type_id" where
  "get_converter_function (T_Generic x args) =
     (case arg_types (T_Generic x args) of
        Some a \<Rightarrow> Inr (ArgHandler (snd a), IntId (fst a))
      | None \<Rightarrow>
          (case x of
             T_Optional \<Rightarrow>
               (case args of [] \<Rightarrow> Inl IndexError
                | a # as \<Rightarrow>
                    bindE (get_converter_function a)
                      (\<lambda>p. Inr (CoroutineObject (fst p), snd p)))
           | T_Union \<Rightarrow>
               bindE (union_loop (get_converter_function x) args
                        \<lparr>required = True, discord_obj_fallback = False,
                         arg_type = [], converters = []\<rparr>)
                 union_finish
           | T_Greedy \<Rightarrow>
               Inl (TypeError ''commands.Greedy is not supported with slash commands.'')
           | _ \<Rightarrow> compat_layer (T_Generic x args)))"
| "get_converter_function converter_type =
     (case arg_types converter_type of
        Some a \<Rightarrow> Inr (ArgHandler (snd a), IntId (fst a))
      | None \<Rightarrow> compat_layer converter_type)"

text \<open>
  Calling what \<^verbatim>\<open>_get_converter_function\<close> returned with \<^verbatim>\<open>(bot, ctx, arg)\<close>. The
  compatibility layer builds a context of its own from the payload.
\<close>

function call_converter :: "converter \<Rightarrow> bot \<Rightarrow> json \<Rightarrow> json \<Rightarrow> (error + pyval) \<times> json"
  and try_converters ::
    "converter list \<Rightarrow> converter \<Rightarrow> bot \<Rightarrow> json \<Rightarrow> json \<Rightarrow> (error + pyval) \<times> json" where
  "call_converter (ArgHandler f) b ctx arg = arg_func_call f b ctx arg"
| "call_converter (CoroutineObject c) b ctx arg =
     (Inl (TypeError ''coroutine object is not callable''), ctx)"
| "call_converter (TupleObject c t) b ctx arg =
     (Inl (TypeError ''tuple object is not callable''), ctx)"
| "call_converter (SingleTypeProcessor cs l) b ctx arg = try_converters cs l b ctx arg"
| "call_converter (TransformInt origin) b ctx arg =
     (case py_int arg of
        Inl e \<Rightarrow>
          (case e of ValueError m \<Rightarrow> (Inl (BadArgument ''Unable to parse int.''), ctx)
           | _ \<Rightarrow> (Inl e, ctx))
      | Inr y \<Rightarrow> call_converter origin b ctx (JNum y))"
| "call_converter (CompatLayer x) b ctx arg =
     (bindE (CommandsContext_init ctx b) (\<lambda>c. x c arg), ctx)"
| "try_converters [] l b ctx arg = call_converter l b ctx arg"
| "try_converters (c # cs) l b ctx arg =
     (case call_converter c b ctx arg of
        (Inl e, ctx') \<Rightarrow>
          if is_BadArgument e then try_converters cs l b ctx' arg else (Inl e, ctx')
      | (Inr v, ctx') \<Rightarrow> (Inr v, ctx'))"
  by pat_completeness auto
termination
  by (relation "measure (\<lambda>x. case x of
          Inl (c, b, ctx, arg) \<Rightarrow> 2 * size c
        | Inr (cs, l, b, ctx, arg) \<Rightarrow> 2 * (size_list size cs + size l) + 1)") auto

section \<open>Command nodes\<close>

text \<open>An entry of \<^verbatim>\<open>SlashCommand.args\<close>, the argument list published to the platform.\<close>

datatype arg_spec = ArgSpec (spec_type: type_id) (spec_name: string)
  (spec_description: string) (spec_required: bool)

text \<open>
  A closure \<^verbatim>\<open>conversion_entrypoint\<close>. The function refers to the variables
  \<^verbatim>\<open>required\<close>, \<^verbatim>\<open>param\<close> and \<^verbatim>\<open>converter_function\<close> of the call of \<^verbatim>\<open>_process_args\<close>
  that created it, and reads them when it runs; the fields are the values these variables
  hold then.
\<close>

datatype processor = ConversionEntrypoint (cell_required: bool) (cell_param: param)
  (cell_converter_function: converter)

text \<open>
  An entry of \<^verbatim>\<open>SlashCommand.checks\<close>: a coroutine function as it was found, or the
  closure \<^verbatim>\<open>wrapper\<close> put in the place of a function that is not one. The closure refers
  to the loop variable \<open>c\<close> of \<^verbatim>\<open>_get_checks\<close>; the field is the value of \<open>c\<close> when the
  closure runs.
\<close>

datatype check_fn = CheckFunction check | CheckWrapper check

datatype slash_command = SlashCommand
  (self_bot: bot)
  (name: string)
  (description: string)
  (handler: "item option")
  (args: "arg_spec list")
  (processors: "processor list option")
  (is_private: bool)
  (children: "(string \<times> slash_command) list")
  (checks: "check_fn list")

text \<open>
  \<^verbatim>\<open>getattr(converter_function, "_required", True)\<close>. The attribute is set in the body
  of the coroutine \<^verbatim>\<open>_is_typing_optional\<close>, on a function local to it; no object that
  \<^verbatim>\<open>_get_converter_function\<close> returns carries it.
\<close>

definition required_attr :: "converter \<Rightarrow> bool" where
  "required_attr converter_function = True"

text \<open>
  The loop of \<^verbatim>\<open>_process_args\<close> over the parameters after the first. It carries the
  list \<^verbatim>\<open>self.args\<close> and the variables the closures refer to, as of the latest
  iteration.
\<close>

fun process_params ::
  "param list \<Rightarrow> arg_spec list \<times> (bool \<times> param \<times> converter) option \<Rightarrow>
     error + arg_spec list \<times> (bool \<times> param \<times> converter) option" where
  "process_params [] acc = Inr acc"
| "process_params (p # ps) acc =
     (let converter_type = (case annotation p of None \<Rightarrow> T_str | Some t \<Rightarrow> t);
          required0 = (param_default p = None)
      in bindE (get_converter_function converter_type) (\<lambda>r.
           let converter_function = fst r; param_type_id = snd r;
               required1 = (if required0 then required_attr converter_function else required0);
               description = (if required1 then ''Required input'' else ''Optional input'')
           in process_params ps
                (fst acc @ [ArgSpec param_type_id (param_name p) description required1],
                 Some (required1, p, converter_function))))"

text \<open>
  \<^verbatim>\<open>_process_args\<close>: one closure per parameter after the context parameter, all of them
  over the same three variables.
\<close>

definition process_args :: "item \<Rightarrow> error + processor list \<times> arg_spec list" where
  "process_args h =
     (case parameters h of
        [] \<Rightarrow> Inl (TypeError ''Expected context'')
      | possible_ctx # params \<Rightarrow>
          if annotation possible_ctx \<notin> {None, Some T_Context, Some T_CommandsContext}
          then Inl (TypeError ''Context type is invalid'')
          else bindE (process_params params ([], None)) (\<lambda>r.
                 Inr (case snd r of None \<Rightarrow> []
                      | Some (rq, p, cf) \<Rightarrow>
                          replicate (length params) (ConversionEntrypoint rq p cf),
                      fst r)))"

text \<open>
  \<^verbatim>\<open>_get_checks\<close>: the bot's checks, its check-once checks, and the handler's list
  reversed; then every entry that is not a coroutine function is replaced by a
  \<^verbatim>\<open>wrapper\<close>. When a wrapper runs, the loop has ended and \<open>c\<close> is the last entry the loop
  visited.
\<close>

definition handler_checks :: "item option \<Rightarrow> check list" where
  "handler_checks h =
     (case h of None \<Rightarrow> []
      | Some f \<Rightarrow> rev (case commands_checks f of None \<Rightarrow> [] | Some x \<Rightarrow> x))"

definition get_checks :: "bot \<Rightarrow> item option \<Rightarrow> check_fn list" where
  "get_checks b h =
     (let cs = bot_checks b @ bot_check_once b @ handler_checks h
      in map (\<lambda>c. if \<not> is_coroutine c then CheckWrapper (last cs) else CheckFunction c) cs)"

text \<open>
  \<^verbatim>\<open>x.reverse()\<close> reverses the handler's own list \<^verbatim>\<open>__commands_checks__\<close> in place; the
  command keeps the handler as it is afterwards.
\<close>

fun reversed_checks :: "item \<Rightarrow> item" where
  "reversed_checks (Item sl asy dc pr ps cc bd ats) =
     Item sl asy dc pr ps (map_option rev cc) bd ats"

text \<open>\<^verbatim>\<open>SlashCommand.__init__\<close>.\<close>

definition SlashCommand_init ::
  "bot \<Rightarrow> string \<Rightarrow> string \<Rightarrow> item option \<Rightarrow> bool \<Rightarrow> error + slash_command" where
  "SlashCommand_init b nm descr h priv =
     bindE (case h of None \<Rightarrow> Inr (None, [])
            | Some f \<Rightarrow> bindE (process_args f) (\<lambda>r. Inr (Some (fst r), snd r))) (\<lambda>pa.
       Inr (SlashCommand b nm descr (map_option reversed_checks h) (snd pa) (fst pa) priv []
              (get_checks b h)))"

text \<open>\<^verbatim>\<open>SlashCommand._add_child\<close>.\<close>

fun add_child :: "slash_command \<Rightarrow> slash_command \<Rightarrow> error + slash_command" where
  "add_child (SlashCommand b nm descr h ar procs priv ch cs) child =
     (if h \<noteq> None then Inl (RecursionError ''Async command cannot have children.'')
      else Inr (SlashCommand b nm descr h ar procs priv (dict_set ch (name child) child) cs))"

section \<open>Executing a command\<close>

text \<open>
  What an execution leaves behind: the payload, which is changed in place, and the
  application functions whose bodies ran, in order: a check by name, the handler with the
  context and the arguments it was given.
\<close>

datatype effect = CheckRun string | HandlerRun commands_context "pyval list"

record run_state =
  payload :: json
  trace :: "effect list"

text \<open>
  Awaiting an entry of \<^verbatim>\<open>self.checks\<close>. A wrapper returns \<^verbatim>\<open>c(ctx)\<close> without awaiting
  it: when \<open>c\<close> is a coroutine function, that is a coroutine object, which is true, and the
  body of \<open>c\<close> does not run.
\<close>

fun call_check :: "check_fn \<Rightarrow> commands_context \<Rightarrow> (error + bool) \<times> effect list" where
  "call_check (CheckFunction c) ctx = (predicate c ctx, [CheckRun (check_name c)])"
| "call_check (CheckWrapper c) ctx =
     (if is_coroutine c then (Inr True, [])
      else (predicate c ctx, [CheckRun (check_name c)]))"

text \<open>The loop over \<^verbatim>\<open>self.checks\<close> in \<^verbatim>\<open>execute\<close>.\<close>

fun run_checks ::
  "check_fn list \<Rightarrow> commands_context \<Rightarrow> string \<Rightarrow> effect list \<Rightarrow> error option \<times> effect list" where
  "run_checks [] ctx nm tr = (None, tr)"
| "run_checks (c # cs) ctx nm tr =
     (case call_check c ctx of
        (Inl e, ev) \<Rightarrow> (Some e, tr @ ev)
      | (Inr ok, ev) \<Rightarrow>
          if \<not> ok
          then (Some (CheckFailure (''The check functions for command '' @ nm @ '' failed.'')),
                tr @ ev)
          else run_checks cs ctx nm (tr @ ev))"

text \<open>\<^verbatim>\<open>conversion_entrypoint(bot, ctx, arg)\<close>.\<close>

definition conversion_entrypoint ::
  "processor \<Rightarrow> bot \<Rightarrow> json \<Rightarrow> json \<Rightarrow> (error + pyval) \<times> json" where
  "conversion_entrypoint pr b ctx arg =
     (case py_get arg ''value'' of
        Inl e \<Rightarrow> (Inl e, ctx)
      | Inr v \<Rightarrow>
          if v = JNull then
            (if cell_required pr
             then (Inl (BadArgument ''Received optional param from Discord but no option is set.''),
                   ctx)
             else (Inr (case param_default (cell_param pr) of None \<Rightarrow> Raw JNull | Some d \<Rightarrow> d),
                   ctx))
          else call_converter (cell_converter_function pr) b ctx v)"

text \<open>
  The loop \<^verbatim>\<open>for index, arg in enumerate(self._processors)\<close>: the option at the
  processor's index is read from \<^verbatim>\<open>params\<close> and converted.
\<close>

fun convert_args ::
  "processor list \<Rightarrow> nat \<Rightarrow> bot \<Rightarrow> json \<Rightarrow> json \<Rightarrow> pyval list \<Rightarrow> (error + pyval list) \<times> json" where
  "convert_args [] index b params ctx acc = (Inr acc, ctx)"
| "convert_args (pr # prs) index b params ctx acc =
     (case py_index params index of
        Inl e \<Rightarrow> (Inl e, ctx)
      | Inr a \<Rightarrow>
          (case conversion_entrypoint pr b ctx a of
             (Inl e, ctx') \<Rightarrow> (Inl e, ctx')
           | (Inr v, ctx') \<Rightarrow> convert_args prs (Suc index) b params ctx' (acc @ [v])))"

text \<open>\<^verbatim>\<open>ctx_data["data"]["options"]\<close>.\<close>

definition options_of :: "json \<Rightarrow> error + json" where
  "options_of raw = bindE (py_getitem raw ''data'') (\<lambda>d. py_getitem d ''options'')"

text \<open>
  The second half of \<^verbatim>\<open>execute\<close>, for a node with a handler. The context refers to the
  payload, so the handler sees the payload as the converters left it.
\<close>

definition execute_handler :: "slash_command \<Rightarrow> item \<Rightarrow> run_state \<Rightarrow> error option \<times> run_state" where
  "execute_handler self h s =
     (case CommandsContext_init (payload s) (self_bot self) of
        Inl e \<Rightarrow> (Some e, s)
      | Inr ctx \<Rightarrow>
          (case run_checks (checks self) ctx (name self) (trace s) of
             (Some e, tr) \<Rightarrow> (Some e, s\<lparr>trace := tr\<rparr>)
           | (None, tr) \<Rightarrow>
               (case options_of (payload s) of
                  Inl e \<Rightarrow> (Some e, s\<lparr>trace := tr\<rparr>)
                | Inr params \<Rightarrow>
                    (case processors self of
                       None \<Rightarrow> (Some (TypeError ''NoneType object is not iterable''),
                                s\<lparr>trace := tr\<rparr>)
                     | Some prs \<Rightarrow>
                         (case convert_args prs 0 (self_bot self) params (payload s) [] of
                            (Inl e, raw) \<Rightarrow> (Some e, \<lparr>payload = raw, trace = tr\<rparr>)
                          | (Inr as, raw) \<Rightarrow>
                              (body h (ctx\<lparr>ctx_data := raw\<rparr>) as,
                               \<lparr>payload = raw,
                                trace = tr @ [HandlerRun (ctx\<lparr>ctx_data := raw\<rparr>) as]\<rparr>))))))"

text \<open>
  The first half of \<^verbatim>\<open>execute\<close>, for a node without a handler, up to the assignment: the
  child and the nested options of the single option.
\<close>

definition find_subcommand :: "slash_command \<Rightarrow> json \<Rightarrow> error + slash_command \<times> json" where
  "find_subcommand self raw =
     bindE (options_of raw) (\<lambda>options.
     bindE (py_len options) (\<lambda>n.
     if n \<noteq> 1 then Inl (BadArgument ''Expected type option, found weird argument set.'')
     else
     bindE (py_index options 0) (\<lambda>base_option.
     bindE (py_getitem base_option ''type'') (\<lambda>t.
     bindE (py_in_ints t [1, 2]) (\<lambda>ok.
     if \<not> ok then Inl (BadArgument ''First argument is not a sub-command type.'')
     else
     bindE (py_getitem base_option ''name'') (\<lambda>nm.
     bindE (dict_lookup (children self) nm) (\<lambda>r.
     case r of
       None \<Rightarrow> Inl (BadArgument (''Unknown subcommand '' @ [CHR 0x22] @ ''None'' @ [CHR 0x22]))
     | Some subcommand \<Rightarrow>
         bindE (py_getitem base_option ''options'') (\<lambda>nested.
         Inr (subcommand, nested)))))))))"

text \<open>The assignment \<^verbatim>\<open>ctx_data["data"]["options"] = base_option["options"]\<close>.\<close>

definition assign_options :: "json \<Rightarrow> json \<Rightarrow> json" where
  "assign_options raw nested =
     (case raw of
        JObj kvs \<Rightarrow>
          (case map_of kvs ''data'' of
             Some (JObj d) \<Rightarrow> JObj (dict_set kvs ''data'' (JObj (dict_set d ''options'' nested)))
           | _ \<Rightarrow> raw)
      | _ \<Rightarrow> raw)"

lemma size_child:
  "map_of (children self) k = Some sub \<Longrightarrow> size sub < size self"
proof -
  assume "map_of (children self) k = Some sub"
  then have "(k, sub) \<in> set (children self)"
    by (rule map_of_SomeD)
  then have "size_prod (\<lambda>_. 0) size (k, sub) \<le> size_list (size_prod (\<lambda>_. 0) size) (children self)"
    by (intro size_list_estimation'[where x = "(k, sub)"]) simp_all
  then show ?thesis
    by (cases self) simp
qed

lemma find_subcommand_size:
  "find_subcommand self raw = Inr (sub, nested) \<Longrightarrow> size sub < size self"
proof -
  assume "find_subcommand self raw = Inr (sub, nested)"
  then obtain nm where "dict_lookup (children self) nm = Inr (Some sub)"
    by (auto simp: find_subcommand_def bindE_def split: sum.splits if_splits option.splits)
  then obtain k where "map_of (children self) k = Some sub"
    by (cases nm) (auto split: if_splits)
  then show ?thesis
    by (rule size_child)
qed

text \<open>\<^verbatim>\<open>SlashCommand.execute\<close>.\<close>

function execute :: "slash_command \<Rightarrow> run_state \<Rightarrow> error option \<times> run_state" where
  "execute self s =
     (case handler self of
        None \<Rightarrow>
          (case find_subcommand self (payload s) of
             Inl e \<Rightarrow> (Some e, s)
           | Inr (subcommand, nested) \<Rightarrow>
               execute subcommand (s\<lparr>payload := assign_options (payload s) nested\<rparr>))
      | Some h \<Rightarrow> execute_handler self h s)"
  by pat_completeness auto
termination
  by (relation "measure (\<lambda>(self, s). size self)") (auto dest: find_subcommand_size)

declare execute.simps [simp del]

section \<open>The registry and the router\<close>

record commands_processor =
  processor_bot :: bot
  commands :: "(string \<times> slash_command) list"

text \<open>
  \<^verbatim>\<open>_CommandsProcessor.unload_command\<close>: \<^verbatim>\<open>del self.commands[name]\<close> raises
  \<open>KeyError\<close> for a name that is not a key.
\<close>

definition unload_command :: "commands_processor \<Rightarrow> string \<Rightarrow> error option \<times> commands_processor" where
  "unload_command self nm =
     (case map_of (commands self) nm of
        None \<Rightarrow> (Some (KeyError (JStr nm)), self)
      | Some c \<Rightarrow> (None, self\<lparr>commands := dict_del (commands self) nm\<rparr>))"

lemma size_attrs: "size_list size (attrs i) < size i"
  by (cases i) simp

text \<open>
  \<^verbatim>\<open>_CommandsProcessor._create_command\<close>, and its loop over the attributes of a container,
  which adds a child for every attribute tagged with a non-empty \<^verbatim>\<open>_slash\<close>.
\<close>

function create_command :: "bot \<Rightarrow> string \<Rightarrow> item \<Rightarrow> nat \<Rightarrow> error + slash_command"
  and create_children :: "bot \<Rightarrow> item list \<Rightarrow> nat \<Rightarrow> slash_command \<Rightarrow> error + slash_command" where
  "create_command b nm i nested =
     (let descr = (case doc i of None \<Rightarrow> [] | Some d \<Rightarrow> d)
      in if \<not> is_async i \<and> nested > 1 then Inl (RecursionError ''Command is nested too deep.'')
         else
           bindE (SlashCommand_init b nm descr (if is_async i then Some i else None)
                    (private_attr i)) (\<lambda>command.
           if \<not> is_async i then
             bindE (create_children b (attrs i) nested command) (\<lambda>command'.
             if length (children command') = 0
             then Inl (TypeError ''A sub-command class requires children.'')
             else Inr command')
           else Inr command))"
| "create_children b [] nested command = Inr command"
| "create_children b (attr # rest) nested command =
     (case slash_attr attr of
        None \<Rightarrow> create_children b rest nested command
      | Some command_name \<Rightarrow>
          if command_name = [] then create_children b rest nested command
          else
            bindE (create_command b command_name attr (nested + 1)) (\<lambda>subcommand.
            bindE (add_child command subcommand) (\<lambda>command'.
            create_children b rest nested command')))"
  by pat_completeness auto
termination
  by (relation "measure (\<lambda>x. case x of
          Inl (b, nm, i, nested) \<Rightarrow> size i
        | Inr (b, is, nested, command) \<Rightarrow> size_list size is)")
     (auto simp: size_attrs)

declare create_command.simps [simp del]

text \<open>\<^verbatim>\<open>_CommandsProcessor.load_command\<close>; nothing is stored when the construction raises.\<close>

definition load_command :: "commands_processor \<Rightarrow> item \<Rightarrow> error option \<times> commands_processor" where
  "load_command self i =
     (case slash_attr i of
        None \<Rightarrow> (Some (AttributeError ''object has no attribute _slash''), self)
      | Some nm \<Rightarrow>
          (case create_command (processor_bot self) nm i 0 of
             Inl e \<Rightarrow> (Some e, self)
           | Inr c \<Rightarrow> (None, self\<lparr>commands := dict_set (commands self) nm c\<rparr>)))"

record commands_patcher =
  patcher_bot :: bot
  processor :: commands_processor

text \<open>\<^verbatim>\<open>self.bot.dispatch("command_error", ctx, e)\<close>.\<close>

datatype event = CommandError commands_context error

text \<open>
  The two \<^verbatim>\<open>try\<close> blocks of \<^verbatim>\<open>_process_interaction\<close>: the look-up, where \<open>KeyError\<close>
  becomes \<open>CommandNotFound\<close>, and the execution.
\<close>

definition run_command :: "commands_patcher \<Rightarrow> json \<Rightarrow> json \<Rightarrow> error option \<times> run_state" where
  "run_command self command_name data =
     (case dict_lookup (commands (processor self)) command_name of
        Inl e \<Rightarrow> (Some e, \<lparr>payload = data, trace = []\<rparr>)
      | Inr None \<Rightarrow> (Some (CommandNotFound command_name), \<lparr>payload = data, trace = []\<rparr>)
      | Inr (Some cmd) \<Rightarrow> execute cmd \<lparr>payload = data, trace = []\<rparr>)"

text \<open>
  \<^verbatim>\<open>_CommandsPatcher._process_interaction\<close>. The result is the exception that leaves the
  function, if any, the events dispatched, and the state the execution left. The handler
  of \<^verbatim>\<open>except Exception\<close> builds a new context from the payload as it is then.
\<close>

definition process_interaction ::
  "commands_patcher \<Rightarrow> json \<Rightarrow> error option \<times> event list \<times> run_state" where
  "process_interaction self data =
     (case py_getitem data ''type'' of
        Inl e \<Rightarrow> (Some e, [], \<lparr>payload = data, trace = []\<rparr>)
      | Inr t \<Rightarrow>
          if \<not> py_eq_int t 2 then (None, [], \<lparr>payload = data, trace = []\<rparr>)
          else
            (case bindE (py_getitem data ''data'') (\<lambda>d. py_getitem d ''name'') of
               Inl e \<Rightarrow> (Some e, [], \<lparr>payload = data, trace = []\<rparr>)
             | Inr command_name \<Rightarrow>
                 (case run_command self command_name data of
                    (None, s) \<Rightarrow> (None, [], s)
                  | (Some e, s) \<Rightarrow>
                      if \<not> is_Exception e then (Some e, [], s)
                      else
                        (case CommandsContext_init (payload s) (patcher_bot self) of
                           Inl e' \<Rightarrow> (Some e', [], s)
                         | Inr ctx \<Rightarrow> (None, [CommandError ctx e], s)))))"

section \<open>The shape of command trees\<close>

text \<open>
  The depths, below the node given, of the nodes that have a handler: 0 for the node
  itself, one more for every step to a child.
\<close>

fun handler_depths :: "slash_command \<Rightarrow> nat list" where
  "handler_depths (SlashCommand b nm ds h ar ps pr ch cs) =
     (if h \<noteq> None then [0] else []) @
     concat (map (\<lambda>kc. map Suc (handler_depths (snd kc))) ch)"

text \<open>Every node of the tree has a handler or at least one child, and not both.\<close>

fun handler_xor_children :: "slash_command \<Rightarrow> bool" where
  "handler_xor_children (SlashCommand b nm ds h ar ps pr ch cs) =
     (((h \<noteq> None) \<noteq> (ch \<noteq> [])) \<and> (\<forall>kc \<in> set ch. handler_xor_children (snd kc)))"

text \<open>
  An attribute that \<^verbatim>\<open>_create_command\<close> takes for a sub-command, and the number of
  container levels an item would give rise to: 0 for a coroutine function or a container
  without tagged attributes, one more than its deepest tagged attribute otherwise.
\<close>

definition tagged :: "item \<Rightarrow> bool" where
  "tagged a = (case slash_attr a of None \<Rightarrow> False | Some n \<Rightarrow> n \<noteq> [])"

fun item_depth :: "item \<Rightarrow> nat" where
  "item_depth (Item sl asy dc pr ps cc bd ats) =
     (if asy then 0 else fold max (map (\<lambda>a. Suc (item_depth a)) (filter tagged ats)) 0)"

text \<open>
  The exceptions that constructing a command raises: \<open>RecursionError\<close> and
  \<open>TypeError\<close> from the library's own \<^verbatim>\<open>raise\<close> statements, and \<open>IndexError\<close> for an
  annotation whose origin is \<^verbatim>\<open>typing.Optional\<close> and that has no arguments.
\<close>

fun construction_error :: "error \<Rightarrow> bool" where
  "construction_error (RecursionError m) = True"
| "construction_error (TypeError m) = True"
| "construction_error IndexError = True"
| "construction_error _ = False"

section \<open>Sequences of replies and the footprint of an execution\<close>

text \<open>
  A handler calling \<^verbatim>\<open>reply\<close> on its context time after time, going on after a call
  that raised: the requests handed to the bot, in order, and the context at the end.
\<close>

fun reply_all ::
  "bot \<Rightarrow> commands_context \<Rightarrow> (json \<times> reply_kwargs) list \<Rightarrow> outbound list \<times> commands_context" where
  "reply_all b ctx [] = ([], ctx)"
| "reply_all b ctx (call # calls) =
     (case reply b ctx (fst call) (snd call) of
        (e, out, ctx') \<Rightarrow>
          (case reply_all b ctx' calls of (outs, ctx'') \<Rightarrow> (out @ outs, ctx'')))"


section \<open>Example bots, commands and payloads\<close>

text \<open>A bot without global checks whose requests all return.\<close>

definition bot0 :: bot where
  "bot0 = \<lparr>bot_checks = [], bot_check_once = [], send = (\<lambda>r. None)\<rparr>"

text \<open>The leading context parameter of a handler, without annotation.\<close>

definition ctx_param :: param where
  "ctx_param = \<lparr>param_name = ''ctx'', annotation = None, param_default = None\<rparr>"

text \<open>An application-command interaction in a guild, with the given \<^verbatim>\<open>data\<close>.\<close>

definition interaction :: "json \<Rightarrow> json" where
  "interaction d =
     JObj [(''type'', JNum 2), (''id'', JStr ''1''), (''token'', JStr ''tok''),
           (''channel_id'', JStr ''10''), (''guild_id'', JStr ''20''),
           (''member'', JObj [(''user'', JObj [(''id'', JStr ''7'')])]),
           (''data'', d)]"

text \<open>The registry after loading one item into an empty one, and a patcher around it.\<close>

definition loaded :: "bot \<Rightarrow> item \<Rightarrow> commands_processor" where
  "loaded b i = snd (load_command \<lparr>processor_bot = b, commands = []\<rparr> i)"

definition patcher_of :: "bot \<Rightarrow> item \<Rightarrow> commands_patcher" where
  "patcher_of b i = \<lparr>patcher_bot = b, processor = loaded b i\<rparr>"

text \<open>\<^verbatim>\<open>async def ping(ctx)\<close>, tagged \<^verbatim>\<open>ping\<close>.\<close>

definition ping_item :: item where
  "ping_item = Item (Some ''ping'') True None False [ctx_param] None (\<lambda>ctx as. None) []"

text \<open>
  \<^verbatim>\<open>async def ban(ctx, target: discord.User)\<close>, tagged \<^verbatim>\<open>ban\<close>; a container tagged
  with a name, holding the given attributes; a root with a group with a sub-command, and
  the same one level deeper.
\<close>

definition ban_item :: item where
  "ban_item = Item (Some ''ban'') True (Some ''Bans a user'') False
     [ctx_param, \<lparr>param_name = ''target'', annotation = Some T_User, param_default = None\<rparr>]
     None (\<lambda>ctx as. None) []"

definition container :: "string \<Rightarrow> item list \<Rightarrow> item" where
  "container nm ats = Item (Some nm) False None False [] None (\<lambda>ctx as. None) ats"

definition admin_item :: item where
  "admin_item = container ''admin'' [container ''users'' [ban_item]]"

definition deep_item :: item where
  "deep_item = container ''deep'' [container ''mid'' [container ''users'' [ban_item]]]"

text \<open>The commands built from them, and a group node as it is before its first child.\<close>

definition admin_command :: slash_command where
  "admin_command = projr (create_command bot0 ''admin'' admin_item 0)"

definition ban_command :: slash_command where
  "ban_command = projr (create_command bot0 ''ban'' ban_item 2)"

definition empty_group :: slash_command where
  "empty_group = projr (SlashCommand_init bot0 ''users'' [] None False)"









text \<open>
  \<^verbatim>\<open>async def greet(ctx, target: discord.Object, text: str)\<close>, and an invocation with
  both options.
\<close>

definition greet_item :: item where
  "greet_item = Item (Some ''greet'') True (Some ''Greets'') False
     [ctx_param,
      \<lparr>param_name = ''target'', annotation = Some T_Object, param_default = None\<rparr>,
      \<lparr>param_name = ''text'', annotation = Some T_str, param_default = None\<rparr>]
     None (\<lambda>ctx as. None) []"

definition greet_payload :: json where
  "greet_payload = interaction (JObj [(''name'', JStr ''greet''),
        (''options'', JArr [JObj [(''name'', JStr ''target''), (''value'', JStr ''123'')],
                            JObj [(''name'', JStr ''text''), (''value'', JStr ''hi'')]])])"

text \<open>
  \<^verbatim>\<open>async def count(ctx, n: int = 5)\<close>, invoked without the option, with an empty
  options list and with none; \<^verbatim>\<open>async def pick(ctx, value: Union[int, str])\<close>;
  \<^verbatim>\<open>async def maybe(ctx, n: Optional[int] = None)\<close>.
\<close>

definition count_item :: item where
  "count_item = Item (Some ''count'') True None False
     [ctx_param,
      \<lparr>param_name = ''n'', annotation = Some T_int, param_default = Some (Raw (JNum 5))\<rparr>]
     None (\<lambda>ctx as. None) []"

definition count_payload :: json where
  "count_payload = interaction (JObj [(''name'', JStr ''count''), (''options'', JArr [])])"

definition bare_payload :: json where
  "bare_payload = interaction (JObj [(''name'', JStr ''count'')])"

definition union_item :: item where
  "union_item = Item (Some ''pick'') True None False
     [ctx_param,
      \<lparr>param_name = ''value'', annotation = Some (T_Generic T_Union [T_int, T_str]),
       param_default = None\<rparr>]
     None (\<lambda>ctx as. None) []"

definition optional_item :: item where
  "optional_item = Item (Some ''maybe'') True None False
     [ctx_param,
      \<lparr>param_name = ''n'', annotation = Some (T_Generic T_Union [T_int, T_NoneType]),
       param_default = Some (Raw JNull)\<rparr>]
     None (\<lambda>ctx as. None) []"

text \<open>
  Two checks that are plain functions, one passing and one failing, and a handler whose
  \<^verbatim>\<open>__commands_checks__\<close> is \<^verbatim>\<open>[allow, deny]\<close>: reversed, \<^verbatim>\<open>deny\<close> comes first.
\<close>

definition allow :: check where
  "allow = Check ''allow'' False (\<lambda>ctx. Inr True)"

definition deny :: check where
  "deny = Check ''deny'' False (\<lambda>ctx. Inr False)"

definition guarded_item :: item where
  "guarded_item = Item (Some ''guarded'') True None False [ctx_param]
     (Some [allow, deny]) (\<lambda>ctx as. None) []"

definition guarded_payload :: json where
  "guarded_payload = interaction (JObj [(''name'', JStr ''guarded''), (''options'', JArr [])])"

text \<open>
  A bot whose requests all raise, a call of \<^verbatim>\<open>reply\<close> without keyword arguments, and a
  fresh context on which the handler has set \<^verbatim>\<open>ephemeral\<close>.
\<close>

definition failing_bot :: bot where
  "failing_bot = \<lparr>bot_checks = [], bot_check_once = [],
                   send = (\<lambda>r. Some (HTTPException ''Unknown interaction''))\<rparr>"

definition no_kwargs :: reply_kwargs where
  "no_kwargs = \<lparr>kw_tts = JNull, kw_embeds = [], kw_embed = None, kw_allowed_mentions = JNull\<rparr>"

definition ping_payload :: json where
  "ping_payload = interaction (JObj [(''name'', JStr ''ping''), (''options'', JArr [])])"

definition fresh_ctx :: commands_context where
  "fresh_ctx = projr (CommandsContext_init ping_payload bot0)"

definition eph_ctx :: commands_context where
  "eph_ctx = fresh_ctx\<lparr>ephemeral := True\<rparr>"





section \<open>Properties\<close>

text \<open>The definitions that evaluating a construction or an execution unfolds.\<close>

lemmas value_defs = bindE_def py_get_def py_in_ints_def parse_int_def parse_unsigned_def
  strip_def is_space_def digit_val_def

lemmas context_defs = create_message_payload_def create_text_channel_def
  CommandsMessage_init_def CommandsContext_init_def

lemmas construct_defs = process_args_def required_attr_def handler_checks_def get_checks_def
  SlashCommand_init_def compat_layer_def isinstance_NoneType_def create_command.simps
  load_command_def

lemmas execute_defs = options_of_def conversion_entrypoint_def execute_handler_def
  find_subcommand_def assign_options_def run_command_def process_interaction_def
  execute.simps

lemmas fixture_defs = bot0_def ctx_param_def interaction_def loaded_def patcher_of_def

subsection \<open>Unloading\<close>

lemma map_of_dict_del: "map_of (dict_del kvs k) k' = (if k' = k then None else map_of kvs k')"
  by (induction kvs) (auto simp: dict_del_def)

text \<open>
  C9, as the code has it. Unloading a name that is registered returns, removes that name
  and leaves every other entry as it was. Unloading a name that is not registered raises
  \<open>KeyError\<close> for that name and leaves the registry as it was.
\<close>

theorem unload_command_present_or_KeyError:
  "(map_of (commands self) nm \<noteq> None \<longrightarrow>
      fst (unload_command self nm) = None \<and>
      processor_bot (snd (unload_command self nm)) = processor_bot self \<and>
      map_of (commands (snd (unload_command self nm))) nm = None \<and>
      (\<forall>k. k \<noteq> nm \<longrightarrow>
         map_of (commands (snd (unload_command self nm))) k = map_of (commands self) k)) \<and>
   (map_of (commands self) nm = None \<longrightarrow>
      unload_command self nm = (Some (KeyError (JStr nm)), self))"
  by (auto simp: unload_command_def map_of_dict_del split: option.splits)

theorem unload_command_present_or_KeyError_witness:
  "map_of (commands (loaded bot0 ping_item)) ''ping'' \<noteq> None \<and>
   fst (unload_command (loaded bot0 ping_item) ''ping'') = None \<and>
   map_of (commands (snd (unload_command (loaded bot0 ping_item) ''ping''))) ''ping'' = None \<and>
   map_of (commands (loaded bot0 ping_item)) ''pong'' = None \<and>
   unload_command (loaded bot0 ping_item) ''pong'' =
     (Some (KeyError (JStr ''pong'')), loaded bot0 ping_item)"
proof -
  have present: "map_of (commands (loaded bot0 ping_item)) ''ping'' \<noteq> None"
    by (simp add: value_defs construct_defs fixture_defs ping_item_def)
  have absent: "map_of (commands (loaded bot0 ping_item)) ''pong'' = None"
    by (simp add: value_defs construct_defs fixture_defs ping_item_def)
  show ?thesis
    using present absent
      unload_command_present_or_KeyError [of "loaded bot0 ping_item" "''ping''"]
      unload_command_present_or_KeyError [of "loaded bot0 ping_item" "''pong''"]
    by simp
qed

text \<open>
  C9 as stated fails: unloading from a registry that does not hold the name raises.
\<close>

theorem unload_command_absent_counterexample:
  "map_of (commands \<lparr>processor_bot = bot0, commands = []\<rparr>) ''ping'' = None \<and>
   fst (unload_command \<lparr>processor_bot = bot0, commands = []\<rparr> ''ping'') =
     Some (KeyError (JStr ''ping''))"
  by (simp add: unload_command_def)

subsection \<open>Union annotations\<close>

text \<open>
  No annotation with the origin \<^verbatim>\<open>typing.Union\<close> resolves to a converter: a member that
  is not skipped raises, and when every member is skipped there are no converters.
\<close>

lemma union_loop_no_converters:
  "converters vs = [] \<Longrightarrow>
     union_loop (Inl e) ts vs = Inl e \<or>
     (\<exists>vs'. union_loop (Inl e) ts vs = Inr vs' \<and> converters vs' = [])"
  by (induction ts arbitrary: vs) (auto simp: bindE_def isinstance_NoneType_def)

lemma union_annotation_raises:
  "\<exists>e. get_converter_function (T_Generic T_Union ts) = Inl e"
proof -
  have r: "get_converter_function T_Union =
      Inl (TypeError ''The argument type is not discord.ext.commands compatible.'')"
    by (simp add: compat_layer_def)
  let ?vs = "\<lparr>required = True, discord_obj_fallback = False, arg_type = [], converters = []\<rparr>"
  from union_loop_no_converters[of ?vs _ ts] r
  consider "union_loop (get_converter_function T_Union) ts ?vs =
      Inl (TypeError ''The argument type is not discord.ext.commands compatible.'')"
    | vs' where "union_loop (get_converter_function T_Union) ts ?vs = Inr vs'" "converters vs' = []"
    by auto
  then show ?thesis
  proof cases
    case 1
    then show ?thesis by (simp add: bindE_def)
  next
    case 2
    then show ?thesis by (simp add: bindE_def union_finish_def)
  qed
qed

text \<open>
  C5. For a parameter annotated \<^verbatim>\<open>Union[int, str]\<close> the resolution of the converter
  raises \<open>TypeError\<close>: the loop over the members asks for the converter of the origin
  \<^verbatim>\<open>typing.Union\<close>, which is in no table and has no \<^verbatim>\<open>convert\<close>, instead of the
  converter of the member. So the construction of a command with such a parameter raises
  too, no converter is produced, and neither \<^verbatim>\<open>"42"\<close> nor \<^verbatim>\<open>"abc"\<close> is ever converted.
\<close>

theorem union_int_str_raises:
  "get_converter_function (T_Generic T_Union [T_int, T_str]) =
     Inl (TypeError ''The argument type is not discord.ext.commands compatible.'') \<and>
   create_command bot0 ''pick'' union_item 0 =
     Inl (TypeError ''The argument type is not discord.ext.commands compatible.'')"
  by (simp add: value_defs construct_defs fixture_defs union_item_def)

subsection \<open>Command trees\<close>

lemma SlashCommand_init_Inr:
  "SlashCommand_init b nm d h p = Inr c \<Longrightarrow>
     handler c = map_option reversed_checks h \<and> children c = [] \<and> name c = nm \<and> self_bot c = b"
  by (auto simp: SlashCommand_init_def bindE_def split: option.splits sum.splits)

lemma add_child_Inr:
  "add_child c child = Inr c' \<Longrightarrow>
     handler c = None \<and> handler c' = None \<and>
     children c' = dict_set (children c) (name child) child"
  by (cases c) (auto split: if_splits)

lemma set_dict_set: "set (dict_set kvs k v) \<subseteq> insert (k, v) (set kvs)"
  by (induction kvs) (auto split: if_splits)

lemma dict_set_not_Nil: "dict_set kvs k v \<noteq> []"
  by (cases kvs) (auto split: if_splits)

lemma handler_depths_sel:
  "handler_depths c =
     (if handler c \<noteq> None then [0] else []) @
     concat (map (\<lambda>kc. map Suc (handler_depths (snd kc))) (children c))"
  by (cases c) simp

lemma handler_xor_children_sel:
  "handler_xor_children c =
     (((handler c \<noteq> None) \<noteq> (children c \<noteq> [])) \<and>
      (\<forall>kc \<in> set (children c). handler_xor_children (snd kc)))"
  by (cases c) simp

lemma add_child_depths:
  assumes "add_child c child = Inr c'" and "d \<in> set (handler_depths c')"
  shows "d \<in> set (handler_depths c) \<or> (\<exists>d' \<in> set (handler_depths child). d = Suc d')"
proof -
  from assms(1) have h: "handler c = None" "handler c' = None"
    and ch: "children c' = dict_set (children c) (name child) child"
    by (auto dest: add_child_Inr)
  from assms(2) h ch obtain kc where kc: "kc \<in> set (dict_set (children c) (name child) child)"
    and d: "d \<in> Suc ` set (handler_depths (snd kc))"
    by (subst (asm) handler_depths_sel) auto
  from kc set_dict_set have "kc = (name child, child) \<or> kc \<in> set (children c)"
    by fastforce
  then show ?thesis
  proof
    assume "kc = (name child, child)"
    with d show ?thesis by auto
  next
    assume "kc \<in> set (children c)"
    with d h have "d \<in> set (handler_depths c)"
      by (subst handler_depths_sel) auto
    then show ?thesis ..
  qed
qed

lemma create_depth:
  "(\<forall>c. nested \<le> 2 \<longrightarrow> create_command b nm i nested = Inr c \<longrightarrow>
        (\<forall>d \<in> set (handler_depths c). d + nested \<le> 2))"
  "(\<forall>command'. nested' \<le> 1 \<longrightarrow> create_children b' is nested' command = Inr command' \<longrightarrow>
        (\<forall>d \<in> set (handler_depths command). d + nested' \<le> 2) \<longrightarrow>
        (\<forall>d \<in> set (handler_depths command'). d + nested' \<le> 2))"
proof (induction b nm i nested and b' "is" nested' command
       rule: create_command_create_children.induct)
  case (1 b nm i nested)
  show ?case
  proof (intro allI impI)
    fix c
    assume n: "nested \<le> 2" and c: "create_command b nm i nested = Inr c"
    show "\<forall>d \<in> set (handler_depths c). d + nested \<le> 2"
    proof (cases "is_async i")
      case True
      with c have "SlashCommand_init b nm (case doc i of None \<Rightarrow> [] | Some d \<Rightarrow> d) (Some i)
                     (private_attr i) = Inr c"
        by (simp add: create_command.simps bindE_def split: sum.splits)
      then have "handler c \<noteq> None" "children c = []"
        by (auto dest: SlashCommand_init_Inr)
      then have "handler_depths c = [0]"
        by (subst handler_depths_sel) simp
      with n show ?thesis by simp
    next
      case False
      with c have n1: "\<not> 1 < nested"
        by (auto simp: create_command.simps split: if_splits)
      from c False n1 obtain command where
        init: "SlashCommand_init b nm (case doc i of None \<Rightarrow> [] | Some d \<Rightarrow> d) None
                 (private_attr i) = Inr command"
        and ch: "create_children b (attrs i) nested command = Inr c"
        by (auto simp: create_command.simps bindE_def split: sum.splits if_splits)
      from init have "handler command = None" "children command = []"
        by (auto dest: SlashCommand_init_Inr)
      then have "handler_depths command = []"
        by (subst handler_depths_sel) simp
      with "1.IH"[OF refl _ False, of command] n1 False ch show ?thesis
        by auto
    qed
  qed
next
  case (2 b nested command)
  then show ?case by simp
next
  case (3 b attr rest nested command)
  show ?case
  proof (intro allI impI)
    fix command'
    assume n: "nested \<le> 1"
      and c: "create_children b (attr # rest) nested command = Inr command'"
      and inv: "\<forall>d \<in> set (handler_depths command). d + nested \<le> 2"
    show "\<forall>d \<in> set (handler_depths command'). d + nested \<le> 2"
    proof (cases "slash_attr attr")
      case None
      with "3.IH"(1) n c inv show ?thesis by simp
    next
      case (Some x2)
      show ?thesis
      proof (cases "x2 = []")
        case True
        with "3.IH"(2)[OF Some] Some n c inv show ?thesis by simp
      next
        case False
        with Some c obtain sub command1 where
          sub: "create_command b x2 attr (nested + 1) = Inr sub"
          and add: "add_child command sub = Inr command1"
          and rest: "create_children b rest nested command1 = Inr command'"
          by (auto simp: bindE_def split: sum.splits)
        from "3.IH"(3)[OF Some False] n sub
        have subd: "\<forall>d \<in> set (handler_depths sub). d + (nested + 1) \<le> 2"
          by simp
        have "\<forall>d \<in> set (handler_depths command1). d + nested \<le> 2"
        proof
          fix d assume "d \<in> set (handler_depths command1)"
          from add_child_depths[OF add this] inv subd show "d + nested \<le> 2"
            by auto
        qed
        with "3.IH"(4)[OF Some False, of command1] n rest show ?thesis
          by simp
      qed
    qed
  qed
qed


lemma create_xor:
  "(\<forall>c. create_command b nm i nested = Inr c \<longrightarrow> handler_xor_children c)"
  "(\<forall>command'. create_children b' is nested' command = Inr command' \<longrightarrow>
        (\<forall>kc \<in> set (children command). handler_xor_children (snd kc)) \<longrightarrow>
        handler command = None \<longrightarrow>
        (\<forall>kc \<in> set (children command'). handler_xor_children (snd kc)) \<and>
        handler command' = None \<and> (children command \<noteq> [] \<longrightarrow> children command' \<noteq> []))"
proof (induction b nm i nested and b' "is" nested' command
       rule: create_command_create_children.induct)
  case (1 b nm i nested)
  show ?case
  proof (intro allI impI)
    fix c
    assume c: "create_command b nm i nested = Inr c"
    show "handler_xor_children c"
    proof (cases "is_async i")
      case True
      with c have "SlashCommand_init b nm (case doc i of None \<Rightarrow> [] | Some d \<Rightarrow> d) (Some i)
                     (private_attr i) = Inr c"
        by (simp add: create_command.simps bindE_def split: sum.splits)
      then have "handler c \<noteq> None" "children c = []"
        by (auto dest: SlashCommand_init_Inr)
      then show ?thesis
        by (subst handler_xor_children_sel) simp
    next
      case False
      with c have n1: "\<not> 1 < nested"
        by (auto simp: create_command.simps split: if_splits)
      from c False n1 obtain command where
        init: "SlashCommand_init b nm (case doc i of None \<Rightarrow> [] | Some d \<Rightarrow> d) None
                 (private_attr i) = Inr command"
        and ch: "create_children b (attrs i) nested command = Inr c"
        and ne: "children c \<noteq> []"
        by (auto simp: create_command.simps bindE_def split: sum.splits if_splits)
      from init have "handler command = None" "children command = []"
        by (auto dest: SlashCommand_init_Inr)
      with "1.IH"[OF refl _ False, of command] n1 False ch
      have "\<forall>kc \<in> set (children c). handler_xor_children (snd kc)" "handler c = None"
        by auto
      with ne show ?thesis
        by (subst handler_xor_children_sel) simp
    qed
  qed
next
  case (2 b nested command)
  then show ?case by simp
next
  case (3 b attr rest nested command)
  show ?case
  proof (intro allI impI)
    fix command'
    assume c: "create_children b (attr # rest) nested command = Inr command'"
      and inv: "\<forall>kc \<in> set (children command). handler_xor_children (snd kc)"
      and h: "handler command = None"
    show "(\<forall>kc \<in> set (children command'). handler_xor_children (snd kc)) \<and>
          handler command' = None \<and> (children command \<noteq> [] \<longrightarrow> children command' \<noteq> [])"
    proof (cases "slash_attr attr")
      case None
      with "3.IH"(1) c inv h show ?thesis by simp
    next
      case (Some x2)
      show ?thesis
      proof (cases "x2 = []")
        case True
        with "3.IH"(2)[OF Some] Some c inv h show ?thesis by simp
      next
        case False
        with Some c obtain sub command1 where
          sub: "create_command b x2 attr (nested + 1) = Inr sub"
          and add: "add_child command sub = Inr command1"
          and rest: "create_children b rest nested command1 = Inr command'"
          by (auto simp: bindE_def split: sum.splits)
        from "3.IH"(3)[OF Some False] sub have subok: "handler_xor_children sub"
          by simp
        from add have h1: "handler command1 = None"
          and ch1: "children command1 = dict_set (children command) (name sub) sub"
          by (auto dest: add_child_Inr)
        have "\<forall>kc \<in> set (children command1). handler_xor_children (snd kc)"
          using ch1 inv subok set_dict_set[of "children command" "name sub" sub] by auto
        moreover have "children command1 \<noteq> []"
          using ch1 by (simp add: dict_set_not_Nil)
        ultimately show ?thesis
          using "3.IH"(4)[OF Some False, of command1] rest h1 by simp
      qed
    qed
  qed
qed


lemma fold_max_gt:
  "m < fold max xs (a::nat) \<Longrightarrow> m < a \<or> (\<exists>x \<in> set xs. m < x)"
  by (induction xs arbitrary: a) (auto simp: max_def split: if_splits)

lemma item_depth_sel:
  "item_depth i =
     (if is_async i then 0
      else fold max (map (\<lambda>a. Suc (item_depth a)) (filter tagged (attrs i))) 0)"
  by (cases i) simp

lemma item_depth_attr:
  assumes "\<not> is_async i" and "m < item_depth i"
  shows "\<exists>a \<in> set (attrs i). tagged a \<and> m < Suc (item_depth a)"
proof -
  from assms have "m < fold max (map (\<lambda>a. Suc (item_depth a)) (filter tagged (attrs i))) 0"
    by (subst (asm) item_depth_sel) simp
  from fold_max_gt[OF this] show ?thesis by auto
qed

lemma create_too_deep:
  "(\<not> is_async i \<and> 2 < item_depth i + nested \<longrightarrow>
      (\<exists>e. create_command b nm i nested = Inl e))"
  "((\<exists>a \<in> set is. tagged a \<and> \<not> is_async a \<and> 2 < item_depth a + (nested' + 1)) \<longrightarrow>
      (\<exists>e. create_children b' is nested' command = Inl e))"
proof (induction b nm i nested and b' "is" nested' command
       rule: create_command_create_children.induct)
  case (1 b nm i nested)
  show ?case
  proof (intro impI, elim conjE)
    assume na: "\<not> is_async i" and d: "2 < item_depth i + nested"
    show "\<exists>e. create_command b nm i nested = Inl e"
    proof (cases "1 < nested")
      case True
      with na show ?thesis by (simp add: create_command.simps)
    next
      case False
      with d have "2 - nested < item_depth i" by simp
      from item_depth_attr[OF na this] obtain a where
        a: "a \<in> set (attrs i)" "tagged a" "2 - nested < Suc (item_depth a)"
        by auto
      have "\<not> is_async a"
      proof
        assume "is_async a"
        then have "item_depth a = 0" by (subst item_depth_sel) simp
        with a(3) False show False by simp
      qed
      with a False have bad: "\<exists>a \<in> set (attrs i). tagged a \<and> \<not> is_async a \<and>
          2 < item_depth a + (nested + 1)"
        by (intro bexI[of _ a]) auto
      show ?thesis
      proof (cases "SlashCommand_init b nm (case doc i of None \<Rightarrow> [] | Some d \<Rightarrow> d) None
                      (private_attr i)")
        case (Inl e)
        with na False show ?thesis by (simp add: create_command.simps bindE_def)
      next
        case (Inr command)
        from "1.IH"[OF refl _ na, of command] False na bad
        obtain e where "create_children b (attrs i) nested command = Inl e"
          by auto
        with Inr na False show ?thesis by (simp add: create_command.simps bindE_def)
      qed
    qed
  qed
next
  case (2 b nested command)
  then show ?case by simp
next
  case (3 b attr rest nested command)
  show ?case
  proof
    assume "\<exists>a \<in> set (attr # rest). tagged a \<and> \<not> is_async a \<and> 2 < item_depth a + (nested + 1)"
    then obtain a where a: "a \<in> set (attr # rest)" "tagged a" "\<not> is_async a"
      "2 < item_depth a + (nested + 1)"
      by auto
    show "\<exists>e. create_children b (attr # rest) nested command = Inl e"
    proof (cases "slash_attr attr")
      case None
      with a have "a \<in> set rest" by (auto simp: tagged_def)
      with "3.IH"(1)[OF None] a None show ?thesis by auto
    next
      case (Some x2)
      show ?thesis
      proof (cases "x2 = []")
        case True
        with a Some have "a \<in> set rest" by (auto simp: tagged_def)
        with "3.IH"(2)[OF Some True] a Some True show ?thesis by auto
      next
        case False
        show ?thesis
        proof (cases "create_command b x2 attr (nested + 1)")
          case (Inl e)
          with Some False show ?thesis by (simp add: bindE_def)
        next
          case (Inr sub)
          with "3.IH"(3)[OF Some False] a have "a \<noteq> attr" by auto
          with a have ar: "a \<in> set rest" by simp
          show ?thesis
          proof (cases "add_child command sub")
            case (Inl e)
            with Inr Some False show ?thesis by (simp add: bindE_def)
          next
            case (Inr command1)
            from "3.IH"(4)[OF Some False, of command1] ar a
            obtain e where "create_children b rest nested command1 = Inl e" by auto
            with Inr \<open>create_command b x2 attr (nested + 1) = Inr sub\<close> Some False
            show ?thesis by (simp add: bindE_def)
          qed
        qed
      qed
    qed
  qed
qed

lemma load_command_failure:
  "fst (load_command self i) \<noteq> None \<Longrightarrow> snd (load_command self i) = self"
  by (auto simp: load_command_def split: option.splits sum.splits)

lemma load_command_bounded:
  assumes "\<forall>kc \<in> set (commands self). \<forall>d \<in> set (handler_depths (snd kc)). d \<le> 2"
  shows "\<forall>kc \<in> set (commands (snd (load_command self i))).
           \<forall>d \<in> set (handler_depths (snd kc)). d \<le> 2"
proof (cases "slash_attr i")
  case None
  with assms show ?thesis by (simp add: load_command_def)
next
  case (Some nm)
  show ?thesis
  proof (cases "create_command (processor_bot self) nm i 0")
    case (Inl e)
    with Some assms show ?thesis by (simp add: load_command_def)
  next
    case (Inr c)
    from create_depth(1)[of 0 "processor_bot self" nm i] Inr
    have "\<forall>d \<in> set (handler_depths c). d \<le> 2" by simp
    with assms set_dict_set[of "commands self" nm c] Some Inr show ?thesis
      by (auto simp: load_command_def)
  qed
qed

lemma admin_created: "create_command bot0 ''admin'' admin_item 0 = Inr admin_command"
  by (simp add: admin_command_def value_defs construct_defs fixture_defs ban_item_def
      container_def admin_item_def)

lemma deep_depth: "item_depth deep_item = 3"
  by (simp add: deep_item_def container_def ban_item_def tagged_def)

lemma set_add_error: "set_add xs t = Inl e \<Longrightarrow> construction_error e"
  by (auto simp: set_add_def split: type_id.splits)

lemma union_loop_error:
  "union_loop r ts vs = Inl e \<Longrightarrow> (\<And>e'. r = Inl e' \<Longrightarrow> construction_error e') \<Longrightarrow>
     construction_error e"
proof (induction ts arbitrary: vs)
  case Nil
  then show ?case by simp
next
  case (Cons t ts)
  then show ?case
    by (auto simp: bindE_def split: if_splits sum.splits dest: set_add_error)
qed

lemma parse_single_type_error: "parse_single_type vs n = Inl e \<Longrightarrow> construction_error e"
  by (auto simp: parse_single_type_def split: if_splits)

lemma union_finish_error: "union_finish vs = Inl e \<Longrightarrow> construction_error e"
  by (auto simp: union_finish_def bindE_def split: if_splits sum.splits
      dest: parse_single_type_error)

lemma compat_layer_error: "compat_layer t = Inl e \<Longrightarrow> construction_error e"
  by (auto simp: compat_layer_def split: option.splits)

lemma get_converter_function_error:
  "get_converter_function t = Inl e \<Longrightarrow> construction_error e"
proof (induction t arbitrary: e rule: get_converter_function.induct)
  case (1 x ts)
  show ?case
  proof (cases x)
    case T_Optional
    show ?thesis
    proof (cases ts)
      case Nil
      with "1.prems" T_Optional show ?thesis by simp
    next
      case (Cons a as)
      with "1.prems" T_Optional have "get_converter_function a = Inl e"
        by (simp add: bindE_def split: sum.splits)
      with "1.IH"(2)[OF _ T_Optional Cons] show ?thesis by simp
    qed
  next
    case T_Union
    from "1.IH"(1)[OF _ T_Union]
    have r: "\<And>e'. get_converter_function x = Inl e' \<Longrightarrow> construction_error e'"
      by simp
    from "1.prems" T_Union show ?thesis
      by (auto simp: bindE_def split: sum.splits
          dest: union_finish_error union_loop_error[OF _ r])
  qed (use "1.prems" in \<open>auto dest: compat_layer_error\<close>)
qed (auto dest: compat_layer_error)

lemma process_params_error: "process_params ps acc = Inl e \<Longrightarrow> construction_error e"
  by (induction ps arbitrary: acc)
    (auto simp: bindE_def Let_def split: sum.splits dest: get_converter_function_error)

lemma SlashCommand_init_error:
  "SlashCommand_init b nm d h p = Inl e \<Longrightarrow> construction_error e"
  by (auto simp: SlashCommand_init_def process_args_def bindE_def
      split: option.splits sum.splits list.splits if_splits dest: process_params_error)

lemma add_child_error: "add_child c child = Inl e \<Longrightarrow> construction_error e"
  by (cases c) (auto split: if_splits)

lemma create_error:
  "(\<forall>e. create_command b nm i nested = Inl e \<longrightarrow> construction_error e)"
  "(\<forall>e. create_children b' is nested' command = Inl e \<longrightarrow> construction_error e)"
proof (induction b nm i nested and b' "is" nested' command
       rule: create_command_create_children.induct)
  case (1 b nm i nested)
  show ?case
  proof (intro allI impI)
    fix e assume e: "create_command b nm i nested = Inl e"
    show "construction_error e"
    proof (cases "\<not> is_async i \<and> 1 < nested")
      case True
      with e show ?thesis by (auto simp: create_command.simps)
    next
      case False
      show ?thesis
      proof (cases "SlashCommand_init b nm (case doc i of None \<Rightarrow> [] | Some d \<Rightarrow> d)
                      (if is_async i then Some i else None) (private_attr i)")
        case (Inl e')
        with e False show ?thesis
          by (auto simp: create_command.simps bindE_def dest: SlashCommand_init_error)
      next
        case (Inr command)
        show ?thesis
        proof (cases "is_async i")
          case True
          with e False Inr show ?thesis by (simp add: create_command.simps bindE_def)
        next
          case na: False
          with "1.IH"[OF refl False na, of command] e False Inr show ?thesis
            by (auto simp: create_command.simps bindE_def split: sum.splits if_splits)
        qed
      qed
    qed
  qed
next
  case (2 b nested command)
  then show ?case by simp
next
  case (3 b attr rest nested command)
  show ?case
  proof (intro allI impI)
    fix e assume e: "create_children b (attr # rest) nested command = Inl e"
    show "construction_error e"
    proof (cases "slash_attr attr")
      case None
      with "3.IH"(1) e show ?thesis by simp
    next
      case (Some x2)
      show ?thesis
      proof (cases "x2 = []")
        case True
        with "3.IH"(2)[OF Some] Some e show ?thesis by simp
      next
        case False
        with "3.IH"(3)[OF Some False] "3.IH"(4)[OF Some False] Some e show ?thesis
          by (auto simp: bindE_def split: sum.splits dest: add_child_error)
      qed
    qed
  qed
qed

text \<open>
  C3. In a tree that \<^verbatim>\<open>_create_command\<close> returns for a registration (nesting 0), every
  node with a handler is at most 2 levels below the root. A container met at nesting 2
  or more raises \<open>RecursionError\<close>; so for an item with more than two container levels
  the construction raises, \<^verbatim>\<open>load_command\<close> raises for it and leaves the registry as
  it was, and loading keeps every registered tree within the bound.
\<close>

theorem nesting_depth_at_most_two:
  "(create_command b nm i 0 = Inr c \<longrightarrow> (\<forall>d \<in> set (handler_depths c). d \<le> 2)) \<and>
   (\<not> is_async i \<and> 1 < nested \<longrightarrow>
      create_command b nm i nested = Inl (RecursionError ''Command is nested too deep.'')) \<and>
   (2 < item_depth i \<longrightarrow>
      (\<exists>e. create_command b nm i 0 = Inl e \<and> construction_error e) \<and>
      fst (load_command self i) \<noteq> None \<and> snd (load_command self i) = self) \<and>
   ((\<forall>kc \<in> set (commands self). \<forall>d \<in> set (handler_depths (snd kc)). d \<le> 2) \<longrightarrow>
      (\<forall>kc \<in> set (commands (snd (load_command self i))).
         \<forall>d \<in> set (handler_depths (snd kc)). d \<le> 2))"
proof (intro conjI impI)
  assume "create_command b nm i 0 = Inr c"
  with create_depth(1)[of 0 b nm i] show "\<forall>d \<in> set (handler_depths c). d \<le> 2"
    by simp
next
  assume "\<not> is_async i \<and> 1 < nested"
  then show "create_command b nm i nested = Inl (RecursionError ''Command is nested too deep.'')"
    by (simp add: create_command.simps)
next
  assume d: "2 < item_depth i"
  then have na: "\<not> is_async i"
    by (subst (asm) item_depth_sel) (auto split: if_splits)
  with d create_too_deep(1)[of i 0 b nm] obtain e where "create_command b nm i 0 = Inl e"
    by auto
  with create_error(1)[of b nm i 0]
  show "\<exists>e. create_command b nm i 0 = Inl e \<and> construction_error e"
    by auto
  have f: "fst (load_command self i) \<noteq> None"
  proof (cases "slash_attr i")
    case None
    then show ?thesis by (simp add: load_command_def)
  next
    case (Some a)
    from na d create_too_deep(1)[of i 0 "processor_bot self" a]
    obtain e where "create_command (processor_bot self) a i 0 = Inl e"
      by auto
    with Some show ?thesis by (simp add: load_command_def)
  qed
  then show "fst (load_command self i) \<noteq> None" .
  from f show "snd (load_command self i) = self"
    by (rule load_command_failure)
next
  assume "\<forall>kc \<in> set (commands self). \<forall>d \<in> set (handler_depths (snd kc)). d \<le> 2"
  then show "\<forall>kc \<in> set (commands (snd (load_command self i))).
         \<forall>d \<in> set (handler_depths (snd kc)). d \<le> 2"
    by (rule load_command_bounded)
qed

theorem nesting_depth_at_most_two_witness:
  "create_command bot0 ''admin'' admin_item 0 = Inr admin_command \<and>
   handler_depths admin_command = [2] \<and>
   \<not> is_async (container ''users'' [ban_item]) \<and> (1::nat) < 2 \<and>
   create_command bot0 ''users'' (container ''users'' [ban_item]) 2 =
     Inl (RecursionError ''Command is nested too deep.'') \<and>
   2 < item_depth deep_item \<and>
   create_command bot0 ''deep'' deep_item 0 =
     Inl (RecursionError ''Command is nested too deep.'') \<and>
   construction_error (RecursionError ''Command is nested too deep.'') \<and>
   fst (load_command (loaded bot0 admin_item) deep_item) \<noteq> None \<and>
   snd (load_command (loaded bot0 admin_item) deep_item) = loaded bot0 admin_item \<and>
   map (\<lambda>kc. handler_depths (snd kc)) (commands (loaded bot0 admin_item)) = [[2]]"
proof -
  have a: "create_command bot0 ''admin'' admin_item 0 = Inr admin_command"
    by (rule admin_created)
  have g: "\<not> is_async (container ''users'' [ban_item]) \<and> (1::nat) < 2"
    by (simp add: container_def)
  have d: "2 < item_depth deep_item"
    by (simp add: deep_depth)
  have e: "\<forall>kc \<in> set (commands \<lparr>processor_bot = bot0, commands = []\<rparr>).
      \<forall>d \<in> set (handler_depths (snd kc)). d \<le> 2"
    by simp
  have h: "handler_depths admin_command = [2]"
    by (simp add: admin_command_def value_defs construct_defs fixture_defs ban_item_def
      container_def admin_item_def)
  have l: "map (\<lambda>kc. handler_depths (snd kc)) (commands (loaded bot0 admin_item)) = [[2]]"
    by (simp add: admin_command_def value_defs construct_defs fixture_defs ban_item_def
      container_def admin_item_def)
  have r: "create_command bot0 ''deep'' deep_item 0 =
      Inl (RecursionError ''Command is nested too deep.'')"
    by (simp add: value_defs construct_defs fixture_defs deep_item_def container_def
        ban_item_def)
  show ?thesis
    using a g d e h l r
      nesting_depth_at_most_two [of bot0 "''admin''" admin_item admin_command 0
        "\<lparr>processor_bot = bot0, commands = []\<rparr>"]
      nesting_depth_at_most_two [of bot0 "''users''" "container ''users'' [ban_item]" admin_command 2
        "\<lparr>processor_bot = bot0, commands = []\<rparr>"]
      nesting_depth_at_most_two [of bot0 "''deep''" deep_item admin_command 0
        "loaded bot0 admin_item"]
    by simp
qed

text \<open>
  C4. Every node of a tree that \<^verbatim>\<open>_create_command\<close> returns has a handler or at least
  one child, and not both. \<^verbatim>\<open>_add_child\<close> only succeeds on a node without a handler and
  leaves it with a child, so it keeps the property.
\<close>

theorem handler_or_children_not_both:
  "(create_command b nm i nested = Inr c \<longrightarrow> handler_xor_children c) \<and>
   (add_child p child = Inr p' \<longrightarrow>
      handler p' = None \<and> children p' \<noteq> [] \<and>
      ((\<forall>kc \<in> set (children p). handler_xor_children (snd kc)) \<and> handler_xor_children child \<longrightarrow>
         handler_xor_children p'))"
proof (intro conjI impI)
  assume "create_command b nm i nested = Inr c"
  with create_xor(1)[of b nm i nested] show "handler_xor_children c"
    by simp
next
  assume a: "add_child p child = Inr p'"
  then show h: "handler p' = None"
    by (auto dest: add_child_Inr)
  from a show ne: "children p' \<noteq> []"
    by (auto dest: add_child_Inr simp: dict_set_not_Nil)
  assume ok: "(\<forall>kc \<in> set (children p). handler_xor_children (snd kc)) \<and> handler_xor_children child"
  from a have "children p' = dict_set (children p) (name child) child"
    by (auto dest: add_child_Inr)
  with ok set_dict_set[of "children p" "name child" child]
  have "\<forall>kc \<in> set (children p'). handler_xor_children (snd kc)"
    by auto
  with h ne show "handler_xor_children p'"
    by (subst handler_xor_children_sel) simp
qed

theorem handler_or_children_not_both_witness:
  "create_command bot0 ''admin'' admin_item 0 = Inr admin_command \<and>
   handler_xor_children admin_command \<and>
   add_child empty_group ban_command = Inr (projr (add_child empty_group ban_command)) \<and>
   children empty_group = [] \<and>
   handler_xor_children ban_command \<and>
   handler (projr (add_child empty_group ban_command)) = None \<and>
   children (projr (add_child empty_group ban_command)) \<noteq> [] \<and>
   handler_xor_children (projr (add_child empty_group ban_command))"
proof -
  have a: "create_command bot0 ''admin'' admin_item 0 = Inr admin_command"
    by (rule admin_created)
  have g: "empty_group = SlashCommand bot0 ''users'' [] None [] None False [] []"
    by (simp add: empty_group_def value_defs construct_defs fixture_defs)
  have b: "add_child empty_group ban_command = Inr (projr (add_child empty_group ban_command))"
    by (simp add: g)
  have c: "children empty_group = []"
    by (simp add: g)
  have d: "handler_xor_children ban_command"
    by (simp add: ban_command_def value_defs construct_defs fixture_defs ban_item_def)
  show ?thesis
    using a b c d
      handler_or_children_not_both [of bot0 "''admin''" admin_item 0 admin_command
        empty_group ban_command "projr (add_child empty_group ban_command)"]
    by simp
qed

subsection \<open>Checks, options and converters at dispatch\<close>

text \<open>All the processors \<^verbatim>\<open>_process_args\<close> returns are one and the same closure.\<close>

lemma process_args_same_closure:
  "process_args h = Inr (prs, specs) \<Longrightarrow> p \<in> set prs \<Longrightarrow> q \<in> set prs \<Longrightarrow> p = q"
  by (auto simp: process_args_def bindE_def split: list.splits if_splits sum.splits option.splits)

text \<open>Every wrapper \<^verbatim>\<open>_get_checks\<close> returns calls the last check of the list.\<close>

lemma get_checks_wrappers:
  "CheckWrapper c \<in> set (get_checks b h) \<Longrightarrow>
     c = last (bot_checks b @ bot_check_once b @ handler_checks h)"
  by (auto simp: get_checks_def Let_def split: if_splits)

text \<open>
  C8. For \<^verbatim>\<open>async def greet(ctx, target: discord.Object, text: str)\<close>, invoked with
  \<^verbatim>\<open>target = "123"\<close> and \<^verbatim>\<open>text = "hi"\<close>, the handler is called with the raw string
  \<^verbatim>\<open>"123"\<close> for \<^verbatim>\<open>target\<close>: the first option went through the converter of the last
  parameter. The argument list published for the command does give \<^verbatim>\<open>target\<close> the
  mentionable type 9, whose converter turns \<^verbatim>\<open>"123"\<close> into the object with id 123.
\<close>

theorem positional_options_use_last_converter:
  "process_interaction (patcher_of bot0 greet_item) greet_payload =
     (None, [],
      \<lparr>payload = greet_payload,
       trace = [HandlerRun (projr (CommandsContext_init greet_payload bot0))
                  [Raw (JStr ''123''), Raw (JStr ''hi'')]]\<rparr>) \<and>
   map spec_type (args (projr (create_command bot0 ''greet'' greet_item 0))) =
     [IntId 9, IntId 3] \<and>
   call_converter (ArgHandler F_mentionable_converter) bot0 greet_payload (JStr ''123'') =
     (Inr (Object 123), greet_payload)"
  by (simp add: value_defs context_defs construct_defs execute_defs fixture_defs
      nothing_converter_def mentionable_converter_def greet_item_def greet_payload_def)

text \<open>
  C6. For \<^verbatim>\<open>async def count(ctx, n: int = 5)\<close>, invoked with an empty options list, the
  handler is not called: reading the option at index 0 raises \<open>IndexError\<close>, which the
  router reports as a command error. Invoked with no options list at all, reading the
  list raises \<open>KeyError\<close>. And a command with a parameter annotated \<^verbatim>\<open>Optional[int]\<close>
  cannot be constructed at all.
\<close>

theorem omitted_option_raises_IndexError:
  "process_interaction (patcher_of bot0 count_item) count_payload =
     (None, [CommandError (projr (CommandsContext_init count_payload bot0)) IndexError],
      \<lparr>payload = count_payload, trace = []\<rparr>) \<and>
   process_interaction (patcher_of bot0 count_item) bare_payload =
     (None,
      [CommandError (projr (CommandsContext_init bare_payload bot0)) (KeyError (JStr ''options''))],
      \<lparr>payload = bare_payload, trace = []\<rparr>) \<and>
   create_command bot0 ''maybe'' optional_item 0 =
     Inl (TypeError ''The argument type is not discord.ext.commands compatible.'')"
  by (simp add: value_defs context_defs construct_defs execute_defs fixture_defs
      count_item_def count_payload_def optional_item_def bare_payload_def)

text \<open>
  C7. For a handler with the checks \<^verbatim>\<open>[allow, deny]\<close>, both plain functions, the command
  holds two wrappers that both call \<^verbatim>\<open>allow\<close>. Executing it runs \<^verbatim>\<open>allow\<close> twice and
  then the handler; \<^verbatim>\<open>deny\<close>, which comes first in reverse declaration order and
  returns false, never runs, and no \<open>CheckFailure\<close> is raised.
\<close>

theorem sync_checks_all_call_last_check:
  "checks (projr (create_command bot0 ''guarded'' guarded_item 0)) =
     [CheckWrapper allow, CheckWrapper allow] \<and>
   process_interaction (patcher_of bot0 guarded_item) guarded_payload =
     (None, [],
      \<lparr>payload = guarded_payload,
       trace = [CheckRun ''allow'', CheckRun ''allow'',
                HandlerRun (projr (CommandsContext_init guarded_payload bot0)) []]\<rparr>)"
  by (simp add: value_defs context_defs construct_defs execute_defs fixture_defs allow_def
      deny_def guarded_item_def guarded_payload_def)

subsection \<open>The reply channel\<close>

lemma map_of_dict_set:
  "map_of (dict_set kvs k v) k' = (if k' = k then Some v else map_of kvs k')"
  by (induction kvs) auto

lemma callback_flags:
  "map_of (callback_data self content kwargs) ''flags'' =
     (if ephemeral self then Some (JNum 64) else None)"
  by (simp add: callback_data_def Let_def map_of_dict_set split: option.splits)

lemma reply_all_followups:
  "\<not> first_reply ctx \<Longrightarrow>
     reply_all b ctx calls = (map (\<lambda>call. FrameworkReply (fst call) (snd call)) calls, ctx)"
  by (induction calls) (auto simp: reply_def)

text \<open>
  C2, as the code has it. On a context that has not replied, built from a payload with
  an id and a token, \<^verbatim>\<open>reply\<close> hands the bot one callback request with body type 4,
  whose data has the flags 64 exactly when \<^verbatim>\<open>ephemeral\<close> is set. When that request
  returns, the flag \<^verbatim>\<open>_first_reply\<close> is cleared and every later call of \<^verbatim>\<open>reply\<close> goes
  to the framework's reply and leaves the context as it is; when the request raises, the
  context is left as it was. On a context that has replied, \<^verbatim>\<open>reply\<close> goes to the
  framework's reply. \<^verbatim>\<open>reinvoke\<close> raises \<open>NotImplementedError\<close> on every context.
\<close>

theorem reply_protocol:
  "(first_reply ctx \<and> py_getitem (ctx_data ctx) ''id'' = Inr i \<and>
    py_getitem (ctx_data ctx) ''token'' = Inr t \<longrightarrow>
      fst (snd (reply b ctx content kw)) =
        [Callback i t (JObj [(''type'', JNum 4), (''data'', JObj (callback_data ctx content kw))])] \<and>
      map_of (callback_data ctx content kw) ''flags'' =
        (if ephemeral ctx then Some (JNum 64) else None) \<and>
      (fst (reply b ctx content kw) = None \<longrightarrow>
         snd (snd (reply b ctx content kw)) = ctx\<lparr>first_reply := False\<rparr> \<and>
         reply_all b (snd (snd (reply b ctx content kw))) calls =
           (map (\<lambda>call. FrameworkReply (fst call) (snd call)) calls,
            ctx\<lparr>first_reply := False\<rparr>)) \<and>
      (fst (reply b ctx content kw) \<noteq> None \<longrightarrow> snd (snd (reply b ctx content kw)) = ctx)) \<and>
   (\<not> first_reply ctx \<longrightarrow>
      reply b ctx content kw =
        (send b (FrameworkReply content kw), [FrameworkReply content kw], ctx)) \<and>
   reinvoke ctx = Inl (NotImplementedError ''This is not implemented in slash commands.'')"
proof (intro conjI impI)
  assume a: "first_reply ctx \<and> py_getitem (ctx_data ctx) ''id'' = Inr i \<and>
    py_getitem (ctx_data ctx) ''token'' = Inr t"
  then show "fst (snd (reply b ctx content kw)) =
        [Callback i t (JObj [(''type'', JNum 4), (''data'', JObj (callback_data ctx content kw))])]"
    by (simp add: reply_def Let_def split: option.splits)
  show "map_of (callback_data ctx content kw) ''flags'' =
        (if ephemeral ctx then Some (JNum 64) else None)"
    by (rule callback_flags)
  {
    assume ok: "fst (reply b ctx content kw) = None"
    with a show s: "snd (snd (reply b ctx content kw)) = ctx\<lparr>first_reply := False\<rparr>"
      by (simp add: reply_def Let_def split: option.splits)
    show "reply_all b (snd (snd (reply b ctx content kw))) calls =
           (map (\<lambda>call. FrameworkReply (fst call) (snd call)) calls,
            ctx\<lparr>first_reply := False\<rparr>)"
      by (simp add: s reply_all_followups)
  }
  {
    assume "fst (reply b ctx content kw) \<noteq> None"
    with a show "snd (snd (reply b ctx content kw)) = ctx"
      by (simp add: reply_def Let_def split: option.splits)
  }
next
  assume "\<not> first_reply ctx"
  then show "reply b ctx content kw =
        (send b (FrameworkReply content kw), [FrameworkReply content kw], ctx)"
    by (simp add: reply_def)
next
  show "reinvoke ctx = Inl (NotImplementedError ''This is not implemented in slash commands.'')"
    by (simp add: reinvoke_def)
qed

theorem reply_protocol_witness:
  "first_reply eph_ctx \<and> py_getitem (ctx_data eph_ctx) ''id'' = Inr (JStr ''1'') \<and>
   py_getitem (ctx_data eph_ctx) ''token'' = Inr (JStr ''tok'') \<and>
   fst (snd (reply bot0 eph_ctx (JStr ''hi'') no_kwargs)) =
     [Callback (JStr ''1'') (JStr ''tok'')
        (JObj [(''type'', JNum 4),
               (''data'', JObj [(''tts'', JBool False), (''flags'', JNum 64),
                                (''content'', JStr ''hi'')])])] \<and>
   fst (reply bot0 eph_ctx (JStr ''hi'') no_kwargs) = None \<and>
   reply_all bot0 (snd (snd (reply bot0 eph_ctx (JStr ''hi'') no_kwargs)))
       [(JStr ''a'', no_kwargs), (JStr ''b'', no_kwargs)] =
     ([FrameworkReply (JStr ''a'') no_kwargs, FrameworkReply (JStr ''b'') no_kwargs],
      eph_ctx\<lparr>first_reply := False\<rparr>) \<and>
   fst (reply failing_bot eph_ctx (JStr ''hi'') no_kwargs) \<noteq> None \<and>
   snd (snd (reply failing_bot eph_ctx (JStr ''hi'') no_kwargs)) = eph_ctx \<and>
   \<not> first_reply (eph_ctx\<lparr>first_reply := False\<rparr>) \<and>
   reply bot0 (eph_ctx\<lparr>first_reply := False\<rparr>) (JStr ''a'') no_kwargs =
     (None, [FrameworkReply (JStr ''a'') no_kwargs], eph_ctx\<lparr>first_reply := False\<rparr>) \<and>
   reinvoke eph_ctx = Inl (NotImplementedError ''This is not implemented in slash commands.'')"
proof -
  have f: "first_reply eph_ctx \<and> py_getitem (ctx_data eph_ctx) ''id'' = Inr (JStr ''1'') \<and>
      py_getitem (ctx_data eph_ctx) ''token'' = Inr (JStr ''tok'')"
    by (simp add: value_defs context_defs fixture_defs callback_data_def fresh_ctx_def
      eph_ctx_def ping_payload_def no_kwargs_def)
  have d: "callback_data eph_ctx (JStr ''hi'') no_kwargs =
      [(''tts'', JBool False), (''flags'', JNum 64), (''content'', JStr ''hi'')]"
    by (simp add: value_defs context_defs fixture_defs callback_data_def fresh_ctx_def
      eph_ctx_def ping_payload_def no_kwargs_def)
  have ok: "fst (reply bot0 eph_ctx (JStr ''hi'') no_kwargs) = None"
    using f by (simp add: reply_def bot0_def Let_def)
  have ko: "fst (reply failing_bot eph_ctx (JStr ''hi'') no_kwargs) \<noteq> None"
    using f by (simp add: reply_def failing_bot_def Let_def)
  have s: "\<not> first_reply (eph_ctx\<lparr>first_reply := False\<rparr>)"
    by simp
  have b: "send bot0 (FrameworkReply (JStr ''a'') no_kwargs) = None"
    by (simp add: bot0_def)
  note t1 = reply_protocol [of eph_ctx "JStr ''1''" "JStr ''tok''" bot0 "JStr ''hi''" no_kwargs
        "[(JStr ''a'', no_kwargs), (JStr ''b'', no_kwargs)]"]
  note t2 = reply_protocol [of eph_ctx "JStr ''1''" "JStr ''tok''" failing_bot "JStr ''hi''"
        no_kwargs "[]"]
  note t3 = reply_protocol [of "eph_ctx\<lparr>first_reply := False\<rparr>" "JStr ''1''" "JStr ''tok''" bot0
        "JStr ''a''" no_kwargs "[]"]
  from t1 f have c1: "fst (snd (reply bot0 eph_ctx (JStr ''hi'') no_kwargs)) =
     [Callback (JStr ''1'') (JStr ''tok'')
        (JObj [(''type'', JNum 4),
               (''data'', JObj (callback_data eph_ctx (JStr ''hi'') no_kwargs))])]"
    by blast
  from t1 f ok have c2: "reply_all bot0 (snd (snd (reply bot0 eph_ctx (JStr ''hi'') no_kwargs)))
       [(JStr ''a'', no_kwargs), (JStr ''b'', no_kwargs)] =
     (map (\<lambda>call. FrameworkReply (fst call) (snd call))
        [(JStr ''a'', no_kwargs), (JStr ''b'', no_kwargs)],
      eph_ctx\<lparr>first_reply := False\<rparr>)"
    by blast
  from t2 f ko have c3: "snd (snd (reply failing_bot eph_ctx (JStr ''hi'') no_kwargs)) = eph_ctx"
    by blast
  from t3 s have c4: "reply bot0 (eph_ctx\<lparr>first_reply := False\<rparr>) (JStr ''a'') no_kwargs =
     (send bot0 (FrameworkReply (JStr ''a'') no_kwargs),
      [FrameworkReply (JStr ''a'') no_kwargs], eph_ctx\<lparr>first_reply := False\<rparr>)"
    by blast
  from t1 have c5:
    "reinvoke eph_ctx = Inl (NotImplementedError ''This is not implemented in slash commands.'')"
    by blast
  show ?thesis
    using f ok ko s c1 c2 c3 c4 c5 by (simp add: d b)
qed

text \<open>
  C2 as stated fails: when the first callback request raises, the second call of
  \<^verbatim>\<open>reply\<close> on the same context issues a callback request again, not a follow-up.
\<close>

theorem reply_after_failed_callback_counterexample:
  "first_reply fresh_ctx \<and>
   fst (snd (reply failing_bot fresh_ctx (JStr ''hi'') no_kwargs)) =
     [Callback (JStr ''1'') (JStr ''tok'')
        (JObj [(''type'', JNum 4),
               (''data'', JObj [(''tts'', JBool False), (''content'', JStr ''hi'')])])] \<and>
   fst (snd (reply failing_bot (snd (snd (reply failing_bot fresh_ctx (JStr ''hi'') no_kwargs)))
               (JStr ''again'') no_kwargs)) =
     [Callback (JStr ''1'') (JStr ''tok'')
        (JObj [(''type'', JNum 4),
               (''data'', JObj [(''tts'', JBool False), (''content'', JStr ''again'')])])]"
  by (simp add: value_defs context_defs fixture_defs callback_data_def fresh_ctx_def eph_ctx_def
      ping_payload_def no_kwargs_def reply_def failing_bot_def)

subsection \<open>What an execution changes in the payload\<close>






























subsection \<open>The router\<close>




end
